theory Spec2Isabelle
  imports Main "HOL-Library.Multiset"
begin

section \<open>Data model (infrastructure/models.py, domain/schemas.py)\<close>

text \<open>
  UUIDs and timestamps are opaque to the billing service: it only compares them, so both
  are natural numbers here. \<open>uuid4()\<close> is a supply of fresh identifiers, the counter
  \<open>next_uuid\<close> of the store. Amounts are \<open>Numeric(10, 2)\<close> columns, held as a number
  of hundredths.
\<close>

type_synonym uuid = nat
type_synonym datetime = nat

datatype OrderStatus = CREATED | PENDING_PAYMENT | PAID | FAILED | CANCELLED

datatype PackageType = BASIC | STANDARD | PREMIUM

record Order =
  o_id :: uuid
  user_id :: uuid
  package_type :: PackageType
  amount :: int
  currency :: string
  status :: OrderStatus
  stripe_payment_intent_id :: "string option"
  stripe_client_secret :: "string option"
  description :: "string option"
  extra_metadata :: "string option"
  created_at :: datetime
  updated_at :: datetime
  paid_at :: "datetime option"

record WebhookEvent =
  we_id :: uuid
  we_stripe_event_id :: string
  event_type :: string
  we_order_id :: "uuid option"
  processed :: bool
  processing_started_at :: "datetime option"
  processed_at :: "datetime option"
  error_message :: "string option"
  retry_count :: int
  raw_payload :: string
  we_created_at :: datetime

record PaymentAudit =
  pa_id :: uuid
  pa_order_id :: uuid
  action :: string
  old_status :: "OrderStatus option"
  new_status :: OrderStatus
  pa_stripe_event_id :: "string option"
  details :: "string option"
  pa_created_at :: datetime

text \<open>The three domain events of domain/schemas.py, with their fields in declaration order.\<close>

datatype domain_event =
  OrderCreatedEvent uuid uuid PackageType int string datetime
| OrderPaidEvent uuid uuid PackageType int string datetime string
| OrderFailedEvent uuid uuid string datetime

text \<open>
  The exceptions the billing code raises or lets through. \<open>ValueError\<close> and
  \<open>Exception\<close> carry their message, as the handlers of presentation/billing.py read
  it with \<open>str(e)\<close>. \<open>BrokerError\<close> is whatever \<open>broker.publish\<close> raises.
\<close>

datatype exn =
  ValueError string
| Exception string
| AttributeError string
| MultipleResultsFound
| IntegrityError
| DBAPIError string
| BrokerError string

fun exn_str :: "exn \<Rightarrow> string" where
  "exn_str (ValueError m) = m"
| "exn_str (Exception m) = m"
| "exn_str (AttributeError m) = m"
| "exn_str MultipleResultsFound = ''Multiple rows were found when one or none was required''"
| "exn_str IntegrityError = ''IntegrityError''"
| "exn_str (DBAPIError m) = m"
| "exn_str (BrokerError m) = m"

fun OrderStatus_str :: "OrderStatus \<Rightarrow> string" where
  "OrderStatus_str CREATED = ''OrderStatus.CREATED''"
| "OrderStatus_str PENDING_PAYMENT = ''OrderStatus.PENDING_PAYMENT''"
| "OrderStatus_str PAID = ''OrderStatus.PAID''"
| "OrderStatus_str FAILED = ''OrderStatus.FAILED''"
| "OrderStatus_str CANCELLED = ''OrderStatus.CANCELLED''"

fun PackageType_str :: "PackageType \<Rightarrow> string" where
  "PackageType_str BASIC = ''PackageType.BASIC''"
| "PackageType_str STANDARD = ''PackageType.STANDARD''"
| "PackageType_str PREMIUM = ''PackageType.PREMIUM''"

section \<open>The store, the outside world and side effects\<close>

text \<open>
  Every side effect that leaves the process is appended to \<open>effects\<close> when it happens:
  each committed statement of a repository, each call of the payment gateway and each
  message handed to the broker. \<open>published\<close> is the broker's view: routing key and event.
\<close>

datatype effect =
  OrderInsert uuid
| OrderUpdate uuid
| WebhookInsert uuid
| WebhookUpdate uuid
| AuditInsert uuid string
| StripeCreate uuid
| StripeCancel string
| Publish string

record db =
  orders :: "Order list"
  webhook_events :: "WebhookEvent list"
  payment_audit :: "PaymentAudit list"
  published :: "(string \<times> domain_event) list"
  effects :: "effect list"
  next_uuid :: uuid

text \<open>
  What the outside world answers during one call of the service: the clock
  (\<open>datetime.now()\<close> and the server's \<open>now()\<close>, one reading for the whole call), the
  gateway's answer to \<open>PaymentIntent.create\<close> (\<open>Inl m\<close> is a \<open>StripeError\<close> with message
  \<open>m\<close>, \<open>Inr\<close> the intent's id and client secret), its answer to \<open>PaymentIntent.cancel\<close>
  and the broker's answer to \<open>publish\<close> (\<open>Some m\<close> is a failure with message \<open>m\<close>).
\<close>

record world =
  now :: datetime
  stripe_create :: "string + (string \<times> string)"
  stripe_cancel :: "string option"
  broker_error :: "string option"

type_synonym 'a res = "exn + 'a"

section \<open>Repositories (infrastructure/repositories/order.py)\<close>

definition scalar_one_or_none :: "'a list \<Rightarrow> ('a option) res" where
  "scalar_one_or_none rows =
     (case rows of
        [] \<Rightarrow> Inr None
      | [x] \<Rightarrow> Inr (Some x)
      | _ \<Rightarrow> Inl MultipleResultsFound)"

definition OrderRepository_create ::
  "world \<Rightarrow> uuid \<Rightarrow> PackageType \<Rightarrow> int \<Rightarrow> string \<Rightarrow> string option \<Rightarrow> string option
     \<Rightarrow> db \<Rightarrow> Order \<times> db" where
  "OrderRepository_create w uid pt amt cur descr metadata s =
     (let order = \<lparr> o_id = next_uuid s, user_id = uid, package_type = pt, amount = amt,
                     currency = cur, status = CREATED, stripe_payment_intent_id = None,
                     stripe_client_secret = None, description = descr,
                     extra_metadata = metadata, created_at = now w, updated_at = now w,
                     paid_at = None \<rparr>
      in (order, s\<lparr> orders := orders s @ [order],
                    effects := effects s @ [OrderInsert (o_id order)],
                    next_uuid := Suc (next_uuid s) \<rparr>))"

definition OrderRepository_get_by_id :: "db \<Rightarrow> uuid \<Rightarrow> (Order option) res" where
  "OrderRepository_get_by_id s oid =
     scalar_one_or_none (filter (\<lambda>r. o_id r = oid) (orders s))"

definition OrderRepository_get_by_payment_intent_id ::
  "db \<Rightarrow> string \<Rightarrow> (Order option) res" where
  "OrderRepository_get_by_payment_intent_id s pid =
     scalar_one_or_none (filter (\<lambda>r. stripe_payment_intent_id r = Some pid) (orders s))"






text \<open>
  \<open>update(Order).where(Order.id == order_id).values(...).returning(Order)\<close>: every row
  with that id is rewritten (and \<open>onupdate\<close> refreshes \<open>updated_at\<close>), the statement is
  committed, and only then \<open>scalar_one_or_none\<close> reads the returned rows. The unique
  constraint on \<open>stripe_payment_intent_id\<close> rejects the statement when another row holds
  the intent id already.
\<close>

definition OrderRepository_update_payment_intent ::
  "world \<Rightarrow> uuid \<Rightarrow> string \<Rightarrow> string \<Rightarrow> db \<Rightarrow> (Order option) res \<times> db" where
  "OrderRepository_update_payment_intent w oid pid secret s =
     (if list_ex (\<lambda>r. o_id r \<noteq> oid \<and> stripe_payment_intent_id r = Some pid) (orders s)
      then (Inl IntegrityError, s)
      else
        let rows = map (\<lambda>r. if o_id r = oid
                             then r\<lparr> stripe_payment_intent_id := Some pid,
                                     stripe_client_secret := Some secret,
                                     status := PENDING_PAYMENT,
                                     updated_at := now w \<rparr>
                             else r) (orders s)
        in (scalar_one_or_none (filter (\<lambda>r. o_id r = oid) rows),
            s\<lparr> orders := rows, effects := effects s @ [OrderUpdate oid] \<rparr>))"

definition OrderRepository_update_status ::
  "world \<Rightarrow> uuid \<Rightarrow> OrderStatus \<Rightarrow> datetime option \<Rightarrow> db \<Rightarrow> (Order option) res \<times> db" where
  "OrderRepository_update_status w oid new_st paid s =
     (let rows = map (\<lambda>r. if o_id r = oid
                           then (case paid of
                                   None \<Rightarrow> r\<lparr> status := new_st, updated_at := now w \<rparr>
                                 | Some t \<Rightarrow> r\<lparr> status := new_st, updated_at := now w,
                                               paid_at := Some t \<rparr>)
                           else r) (orders s)
      in (scalar_one_or_none (filter (\<lambda>r. o_id r = oid) rows),
          s\<lparr> orders := rows, effects := effects s @ [OrderUpdate oid] \<rparr>))"

definition WebhookEventRepository_create ::
  "world \<Rightarrow> string \<Rightarrow> string \<Rightarrow> string \<Rightarrow> uuid option \<Rightarrow> db \<Rightarrow> WebhookEvent \<times> db" where
  "WebhookEventRepository_create w sid etype payload oid s =
     (let event = \<lparr> we_id = next_uuid s, we_stripe_event_id = sid, event_type = etype,
                     we_order_id = oid, processed = False, processing_started_at = None,
                     processed_at = None, error_message = None, retry_count = 0,
                     raw_payload = payload, we_created_at = now w \<rparr>
      in (event, s\<lparr> webhook_events := webhook_events s @ [event],
                    effects := effects s @ [WebhookInsert (we_id event)],
                    next_uuid := Suc (next_uuid s) \<rparr>))"

definition WebhookEventRepository_get_by_stripe_event_id ::
  "db \<Rightarrow> string \<Rightarrow> (WebhookEvent option) res" where
  "WebhookEventRepository_get_by_stripe_event_id s sid =
     scalar_one_or_none (filter (\<lambda>e. we_stripe_event_id e = sid) (webhook_events s))"

definition WebhookEventRepository_mark_processing :: "world \<Rightarrow> uuid \<Rightarrow> db \<Rightarrow> db" where
  "WebhookEventRepository_mark_processing w eid s =
     s\<lparr> webhook_events :=
          map (\<lambda>e. if we_id e = eid then e\<lparr> processing_started_at := Some (now w) \<rparr> else e)
              (webhook_events s),
        effects := effects s @ [WebhookUpdate eid] \<rparr>"

definition WebhookEventRepository_mark_processed ::
  "world \<Rightarrow> uuid \<Rightarrow> uuid option \<Rightarrow> string option \<Rightarrow> db \<Rightarrow> db" where
  "WebhookEventRepository_mark_processed w eid oid err s =
     s\<lparr> webhook_events :=
          map (\<lambda>e. if we_id e = eid
                   then (let e' = e\<lparr> processed := (err = None),
                                      processed_at := Some (now w),
                                      error_message := err \<rparr>
                         in case oid of None \<Rightarrow> e' | Some x \<Rightarrow> e'\<lparr> we_order_id := Some x \<rparr>)
                   else e)
              (webhook_events s),
        effects := effects s @ [WebhookUpdate eid] \<rparr>"

definition WebhookEventRepository_increment_retry_count :: "uuid \<Rightarrow> db \<Rightarrow> db" where
  "WebhookEventRepository_increment_retry_count eid s =
     s\<lparr> webhook_events :=
          map (\<lambda>e. if we_id e = eid then e\<lparr> retry_count := retry_count e + 1 \<rparr> else e)
              (webhook_events s),
        effects := effects s @ [WebhookUpdate eid] \<rparr>"

definition PaymentAuditRepository_log_action ::
  "world \<Rightarrow> uuid \<Rightarrow> string \<Rightarrow> OrderStatus \<Rightarrow> OrderStatus option \<Rightarrow> string option
     \<Rightarrow> string option \<Rightarrow> db \<Rightarrow> PaymentAudit \<times> db" where
  "PaymentAuditRepository_log_action w oid act new_st old_st sid det s =
     (let audit = \<lparr> pa_id = next_uuid s, pa_order_id = oid, action = act,
                     old_status = old_st, new_status = new_st, pa_stripe_event_id = sid,
                     details = det, pa_created_at = now w \<rparr>
      in (audit, s\<lparr> payment_audit := payment_audit s @ [audit],
                    effects := effects s @ [AuditInsert oid act],
                    next_uuid := Suc (next_uuid s) \<rparr>))"

section \<open>Payment gateway client (infrastructure/stripe/service.py)\<close>

text \<open>
  The part of a verified \<open>stripe.Event\<close> that the service reads: its id and type, and of
  \<open>event.data.object\<close> (the payment intent) the id, the \<open>order_id\<close> entry of its
  metadata and \<open>last_payment_error\<close>, a key that may be missing, hold \<open>null\<close>, or hold
  an object with or without a \<open>message\<close>.
\<close>

datatype last_payment_error = LpeAbsent | LpeNull | LpeObject "string option"

record stripe_event =
  se_id :: string
  se_type :: string
  pi_id :: string
  pi_metadata_order_id :: "string option"
  pi_last_payment_error :: last_payment_error

text \<open>
  \<open>str(order_id)\<close> and \<open>UUID(text)\<close> for identifiers that are numbers: the decimal
  numeral and its parser, which raises \<open>ValueError\<close> on any other text.
\<close>

definition digit_val :: "char \<Rightarrow> nat option" where
  "digit_val c =
     (let n = (of_char c :: nat) in if 48 \<le> n \<and> n \<le> 57 then Some (n - 48) else None)"

fun parse_digits :: "nat \<Rightarrow> string \<Rightarrow> nat option" where
  "parse_digits acc [] = Some acc"
| "parse_digits acc (c # cs) =
     (case digit_val c of None \<Rightarrow> None | Some d \<Rightarrow> parse_digits (10 * acc + d) cs)"

definition UUID :: "string \<Rightarrow> uuid res" where
  "UUID text =
     (case (if text = [] then None else parse_digits 0 text) of
        None \<Rightarrow> Inl (ValueError ''badly formed hexadecimal UUID string'')
      | Some n \<Rightarrow> Inr n)"

definition startswith :: "string \<Rightarrow> string \<Rightarrow> bool" where
  "startswith text p = (take (length p) text = p)"

definition StripeService_create_payment_intent ::
  "world \<Rightarrow> uuid \<Rightarrow> int \<Rightarrow> string \<Rightarrow> db \<Rightarrow> (string \<times> string) res \<times> db" where
  "StripeService_create_payment_intent w oid amt cur s =
     (let s' = s\<lparr> effects := effects s @ [StripeCreate oid] \<rparr>
      in case stripe_create w of
           Inr intent \<Rightarrow> (Inr intent, s')
         | Inl m \<Rightarrow> (Inl (Exception (''Stripe error: '' @ m)), s'))"

definition StripeService_cancel_payment_intent ::
  "world \<Rightarrow> string \<Rightarrow> db \<Rightarrow> unit res \<times> db" where
  "StripeService_cancel_payment_intent w pid s =
     (let s' = s\<lparr> effects := effects s @ [StripeCancel pid] \<rparr>
      in case stripe_cancel w of
           None \<Rightarrow> (Inr (), s')
         | Some m \<Rightarrow> (Inl (Exception (''Stripe error: '' @ m)), s'))"

definition extract_order_id_from_event :: "stripe_event \<Rightarrow> uuid option" where
  "extract_order_id_from_event event =
     (if startswith (se_type event) ''payment_intent.'' \<or> startswith (se_type event) ''charge.''
      then (case pi_metadata_order_id event of
              None \<Rightarrow> None
            | Some order_id_str \<Rightarrow>
                if order_id_str = [] then None
                else (case UUID order_id_str of Inl e \<Rightarrow> None | Inr u \<Rightarrow> Some u))
      else None)"

section \<open>Event publisher (infrastructure/broker/events.py)\<close>

definition broker_publish :: "world \<Rightarrow> string \<Rightarrow> domain_event \<Rightarrow> db \<Rightarrow> unit res \<times> db" where
  "broker_publish w routing_key event s =
     (case broker_error w of
        Some m \<Rightarrow> (Inl (BrokerError m), s)
      | None \<Rightarrow> (Inr (), s\<lparr> published := published s @ [(routing_key, event)],
                            effects := effects s @ [Publish routing_key] \<rparr>))"

definition publish_order_created :: "world \<Rightarrow> domain_event \<Rightarrow> db \<Rightarrow> unit res \<times> db" where
  "publish_order_created w event s = broker_publish w ''order.created'' event s"

definition publish_order_paid :: "world \<Rightarrow> domain_event \<Rightarrow> db \<Rightarrow> unit res \<times> db" where
  "publish_order_paid w event s = broker_publish w ''order.paid'' event s"

definition publish_order_failed :: "world \<Rightarrow> domain_event \<Rightarrow> db \<Rightarrow> unit res \<times> db" where
  "publish_order_failed w event s = broker_publish w ''order.failed'' event s"

section \<open>Billing service (application/billing_service.py)\<close>

record PackagePricing =
  basic_price :: int
  standard_price :: int
  premium_price :: int

record PackageInfo =
  pkg_type :: PackageType
  pkg_name :: string
  pkg_description :: string
  price :: int
  pkg_currency :: string
  features :: "string list"

record OrderCreate =
  oc_package_type :: PackageType
  oc_metadata :: "(string \<times> string) list option"

record OrderResponse =
  r_id :: uuid
  r_user_id :: uuid
  r_package_type :: PackageType
  r_amount :: int
  r_currency :: string
  r_description :: "string option"
  r_status :: OrderStatus
  r_stripe_payment_intent_id :: "string option"
  r_stripe_client_secret :: "string option"
  r_created_at :: datetime
  r_updated_at :: datetime
  r_paid_at :: "datetime option"

record PaymentIntentResponse =
  p_order_id :: uuid
  p_client_secret :: string
  p_amount :: int
  p_currency :: string
  p_status :: OrderStatus

definition model_validate :: "Order \<Rightarrow> OrderResponse" where
  "model_validate order =
     \<lparr> r_id = o_id order, r_user_id = user_id order, r_package_type = package_type order,
       r_amount = amount order, r_currency = currency order,
       r_description = description order, r_status = status order,
       r_stripe_payment_intent_id = stripe_payment_intent_id order,
       r_stripe_client_secret = stripe_client_secret order,
       r_created_at = created_at order, r_updated_at = updated_at order,
       r_paid_at = paid_at order \<rparr>"

fun get_package_info :: "PackagePricing \<Rightarrow> PackageType \<Rightarrow> PackageInfo" where
  "get_package_info pricing BASIC =
     \<lparr> pkg_type = BASIC, pkg_name = ''Basic Package'',
       pkg_description = ''Perfect for small businesses'', price = basic_price pricing,
       pkg_currency = ''USD'',
       features = [''1,000 impressions'', ''Basic analytics'', ''Email support''] \<rparr>"
| "get_package_info pricing STANDARD =
     \<lparr> pkg_type = STANDARD, pkg_name = ''Standard Package'',
       pkg_description = ''Great for growing companies'', price = standard_price pricing,
       pkg_currency = ''USD'',
       features = [''10,000 impressions'', ''Advanced analytics'', ''Priority email support'',
                   ''A/B testing''] \<rparr>"
| "get_package_info pricing PREMIUM =
     \<lparr> pkg_type = PREMIUM, pkg_name = ''Premium Package'',
       pkg_description = ''For established brands'', price = premium_price pricing,
       pkg_currency = ''USD'',
       features = [''100,000 impressions'', ''Full analytics suite'', ''24/7 phone support'',
                   ''A/B testing'', ''Custom targeting''] \<rparr>"

text \<open>
  \<open>json.dumps\<close> of a dictionary of strings whose keys and values need no escaping.
\<close>

fun json_items :: "(string \<times> string) list \<Rightarrow> string" where
  "json_items [] = []"
| "json_items [(k, v)] = [CHR 0x22] @ k @ [CHR 0x22] @ '': '' @ [CHR 0x22] @ v @ [CHR 0x22]"
| "json_items ((k, v) # kvs) =
     [CHR 0x22] @ k @ [CHR 0x22] @ '': '' @ [CHR 0x22] @ v @ [CHR 0x22] @ '', '' @ json_items kvs"

definition json_dumps :: "(string \<times> string) list \<Rightarrow> string" where
  "json_dumps d = ''{'' @ json_items d @ ''}''"

definition none_has_no_id :: exn where
  "none_has_no_id = AttributeError ''NoneType object has no attribute id''"

definition none_has_no_get :: exn where
  "none_has_no_get = AttributeError ''NoneType object has no attribute get''"

text \<open>
  \<open>create_order\<close>. Each repository call commits on its own, so an exception leaves the
  store as the calls before it made it. The \<open>except\<close> clause logs and re-raises.
\<close>

definition create_order ::
  "PackagePricing \<Rightarrow> world \<Rightarrow> uuid \<Rightarrow> OrderCreate \<Rightarrow> db
     \<Rightarrow> (OrderResponse \<times> PaymentIntentResponse) res \<times> db" where
  "create_order pricing w uid order_data s =
     (let package_info = get_package_info pricing (oc_package_type order_data);
          metadata = (case oc_metadata order_data of
                        None \<Rightarrow> None
                      | Some d \<Rightarrow> if d = [] then None else Some (json_dumps d));
          (order, s1) = OrderRepository_create w uid (oc_package_type order_data)
                          (price package_info) (pkg_currency package_info)
                          (Some (pkg_name package_info)) metadata s;
          (a1, s2) = PaymentAuditRepository_log_action w (o_id order) ''order_created'' CREATED
                       None None
                       (Some (''Package: '' @ PackageType_str (oc_package_type order_data))) s1
      in case StripeService_create_payment_intent w (o_id order) (amount order)
                (currency order) s2 of
           (Inl e, s3) \<Rightarrow> (Inl e, s3)
         | (Inr (payment_intent_id, client_secret), s3) \<Rightarrow>
             (case OrderRepository_update_payment_intent w (o_id order) payment_intent_id
                     client_secret s3 of
                (Inl e, s4) \<Rightarrow> (Inl e, s4)
              | (Inr None, s4) \<Rightarrow> (Inl none_has_no_id, s4)
              | (Inr (Some order'), s4) \<Rightarrow>
                  (let (a2, s5) = PaymentAuditRepository_log_action w (o_id order')
                                    ''payment_intent_created'' PENDING_PAYMENT (Some CREATED) None
                                    (Some (''Payment Intent ID: '' @ payment_intent_id)) s4
                   in case publish_order_created w
                             (OrderCreatedEvent (o_id order') (user_id order')
                                (package_type order') (amount order') (currency order')
                                (created_at order')) s5 of
                        (Inl e, s6) \<Rightarrow> (Inl e, s6)
                      | (Inr u, s6) \<Rightarrow>
                          (Inr (model_validate order',
                                \<lparr> p_order_id = o_id order', p_client_secret = client_secret,
                                  p_amount = amount order', p_currency = currency order',
                                  p_status = status order' \<rparr>), s6))))"

definition get_order :: "db \<Rightarrow> uuid \<Rightarrow> uuid \<Rightarrow> OrderResponse res" where
  "get_order s oid uid =
     (case OrderRepository_get_by_id s oid of
        Inl e \<Rightarrow> Inl e
      | Inr None \<Rightarrow> Inl (ValueError ''Order not found'')
      | Inr (Some order) \<Rightarrow>
          if user_id order \<noteq> uid then Inl (ValueError ''Access denied'')
          else Inr (model_validate order))"


text \<open>
  \<open>cancel_order\<close>. A failure of the gateway's cancellation is logged and swallowed; an
  empty intent id is falsy, as \<open>None\<close> is.
\<close>

definition cancel_order :: "world \<Rightarrow> uuid \<Rightarrow> uuid \<Rightarrow> db \<Rightarrow> OrderResponse res \<times> db" where
  "cancel_order w oid uid s =
     (case OrderRepository_get_by_id s oid of
        Inl e \<Rightarrow> (Inl e, s)
      | Inr None \<Rightarrow> (Inl (ValueError ''Order not found''), s)
      | Inr (Some order) \<Rightarrow>
          if user_id order \<noteq> uid then (Inl (ValueError ''Access denied''), s)
          else if status order \<notin> set [CREATED, PENDING_PAYMENT]
          then (Inl (ValueError (''Cannot cancel order with status ''
                                  @ OrderStatus_str (status order))), s)
          else
            (let s1 = (case stripe_payment_intent_id order of
                         None \<Rightarrow> s
                       | Some pid \<Rightarrow>
                           if pid = [] then s
                           else snd (StripeService_cancel_payment_intent w pid s));
                 old = status order
             in case OrderRepository_update_status w (o_id order) CANCELLED None s1 of
                  (Inl e, s2) \<Rightarrow> (Inl e, s2)
                | (Inr None, s2) \<Rightarrow> (Inl none_has_no_id, s2)
                | (Inr (Some order'), s2) \<Rightarrow>
                    (let (a, s3) = PaymentAuditRepository_log_action w (o_id order')
                                     ''order_cancelled'' CANCELLED (Some old) None None s2
                     in (Inr (model_validate order'), s3))))"

definition handle_payment_succeeded ::
  "world \<Rightarrow> stripe_event \<Rightarrow> uuid \<Rightarrow> db \<Rightarrow> unit res \<times> db" where
  "handle_payment_succeeded w event webhook_event_id s =
     (let payment_intent_id = pi_id event
      in case OrderRepository_get_by_payment_intent_id s payment_intent_id of
           Inl e \<Rightarrow> (Inl e, s)
         | Inr None \<Rightarrow> (Inr (), s)
         | Inr (Some order) \<Rightarrow>
             (let s1 = WebhookEventRepository_mark_processed w webhook_event_id
                         (Some (o_id order)) None s
              in if status order = PAID then (Inr (), s1)
                 else
                   (let old = status order;
                        paid = now w
                    in case OrderRepository_update_status w (o_id order) PAID (Some paid) s1 of
                         (Inl e, s2) \<Rightarrow> (Inl e, s2)
                       | (Inr None, s2) \<Rightarrow> (Inl none_has_no_id, s2)
                       | (Inr (Some order'), s2) \<Rightarrow>
                           (let (a, s3) = PaymentAuditRepository_log_action w (o_id order')
                                            ''payment_succeeded'' PAID (Some old)
                                            (Some (se_id event))
                                            (Some (''Payment Intent: '' @ payment_intent_id)) s2
                            in publish_order_paid w
                                 (OrderPaidEvent (o_id order') (user_id order')
                                    (package_type order') (amount order') (currency order')
                                    paid payment_intent_id) s3))))"

definition failure_reason :: "last_payment_error \<Rightarrow> string res" where
  "failure_reason lpe =
     (case lpe of
        LpeAbsent \<Rightarrow> Inr ''Unknown error''
      | LpeNull \<Rightarrow> Inl none_has_no_get
      | LpeObject None \<Rightarrow> Inr ''Unknown error''
      | LpeObject (Some m) \<Rightarrow> Inr m)"

definition handle_payment_failed ::
  "world \<Rightarrow> stripe_event \<Rightarrow> uuid \<Rightarrow> db \<Rightarrow> unit res \<times> db" where
  "handle_payment_failed w event webhook_event_id s =
     (let payment_intent_id = pi_id event
      in case OrderRepository_get_by_payment_intent_id s payment_intent_id of
           Inl e \<Rightarrow> (Inl e, s)
         | Inr None \<Rightarrow> (Inr (), s)
         | Inr (Some order) \<Rightarrow>
             (let s1 = WebhookEventRepository_mark_processed w webhook_event_id
                         (Some (o_id order)) None s;
                  old = status order
              in case OrderRepository_update_status w (o_id order) FAILED None s1 of
                   (Inl e, s2) \<Rightarrow> (Inl e, s2)
                 | (Inr updated, s2) \<Rightarrow>
                     (case failure_reason (pi_last_payment_error event) of
                        Inl e \<Rightarrow> (Inl e, s2)
                      | Inr reason \<Rightarrow>
                          (case updated of
                             None \<Rightarrow> (Inl none_has_no_id, s2)
                           | Some order' \<Rightarrow>
                               (let (a, s3) = PaymentAuditRepository_log_action w (o_id order')
                                                ''payment_failed'' FAILED (Some old)
                                                (Some (se_id event))
                                                (Some (''Error: '' @ reason)) s2
                                in publish_order_failed w
                                     (OrderFailedEvent (o_id order') (user_id order')
                                        reason (now w)) s3)))))"

definition handle_payment_canceled ::
  "world \<Rightarrow> stripe_event \<Rightarrow> uuid \<Rightarrow> db \<Rightarrow> unit res \<times> db" where
  "handle_payment_canceled w event webhook_event_id s =
     (let payment_intent_id = pi_id event
      in case OrderRepository_get_by_payment_intent_id s payment_intent_id of
           Inl e \<Rightarrow> (Inl e, s)
         | Inr None \<Rightarrow> (Inr (), s)
         | Inr (Some order) \<Rightarrow>
             (let s1 = WebhookEventRepository_mark_processed w webhook_event_id
                         (Some (o_id order)) None s;
                  old = status order
              in case OrderRepository_update_status w (o_id order) CANCELLED None s1 of
                   (Inl e, s2) \<Rightarrow> (Inl e, s2)
                 | (Inr None, s2) \<Rightarrow> (Inl none_has_no_id, s2)
                 | (Inr (Some order'), s2) \<Rightarrow>
                     (let (a, s3) = PaymentAuditRepository_log_action w (o_id order')
                                      ''payment_canceled'' CANCELLED (Some old)
                                      (Some (se_id event)) None s2
                      in (Inr (), s3))))"

text \<open>Step 3 of \<open>process_webhook\<close>: the body of its \<open>try\<close> up to the final mark.\<close>

definition dispatch :: "world \<Rightarrow> stripe_event \<Rightarrow> uuid \<Rightarrow> db \<Rightarrow> unit res \<times> db" where
  "dispatch w event webhook_event_id s =
     (if se_type event = ''payment_intent.succeeded''
      then handle_payment_succeeded w event webhook_event_id s
      else if se_type event = ''payment_intent.payment_failed''
      then handle_payment_failed w event webhook_event_id s
      else if se_type event = ''payment_intent.canceled''
      then handle_payment_canceled w event webhook_event_id s
      else (Inr (), s))"

definition process_webhook :: "world \<Rightarrow> stripe_event \<Rightarrow> string \<Rightarrow> db \<Rightarrow> unit res \<times> db" where
  "process_webhook w event payload s =
     (case WebhookEventRepository_get_by_stripe_event_id s (se_id event) of
        Inl e \<Rightarrow> (Inl e, s)
      | Inr found \<Rightarrow>
          (case (case found of
                   Some existing_event \<Rightarrow>
                     if processed existing_event then None
                     else Some (existing_event,
                                WebhookEventRepository_increment_retry_count
                                  (we_id existing_event) s)
                 | None \<Rightarrow>
                     Some (WebhookEventRepository_create w (se_id event) (se_type event)
                             payload (extract_order_id_from_event event) s)) of
             None \<Rightarrow> (Inr (), s)
           | Some (existing_event, s1) \<Rightarrow>
               (let s2 = WebhookEventRepository_mark_processing w (we_id existing_event) s1
                in case dispatch w event (we_id existing_event) s2 of
                     (Inr u, s3) \<Rightarrow>
                       (Inr (), WebhookEventRepository_mark_processed w (we_id existing_event)
                                  None None s3)
                   | (Inl e, s3) \<Rightarrow>
                       (Inl e, WebhookEventRepository_mark_processed w (we_id existing_event)
                                 None (Some (''Error processing webhook: '' @ exn_str e)) s3))))"

section \<open>HTTP layer (presentation/billing.py)\<close>

datatype 'a http = Response 'a | HTTPException nat string

definition route_get_order :: "db \<Rightarrow> uuid \<Rightarrow> uuid \<Rightarrow> OrderResponse http" where
  "route_get_order s oid uid =
     (case get_order s oid uid of
        Inr r \<Rightarrow> Response r
      | Inl (ValueError m) \<Rightarrow> HTTPException 404 m
      | Inl e \<Rightarrow> HTTPException 400 (exn_str e))"

definition route_cancel_order ::
  "world \<Rightarrow> uuid \<Rightarrow> uuid \<Rightarrow> db \<Rightarrow> OrderResponse http \<times> db" where
  "route_cancel_order w oid uid s =
     (case cancel_order w oid uid s of
        (Inr r, s') \<Rightarrow> (Response r, s')
      | (Inl (ValueError m), s') \<Rightarrow> (HTTPException 400 m, s')
      | (Inl e, s') \<Rightarrow> (HTTPException 400 (exn_str e), s'))"

section \<open>Definitions used in the statements and proofs\<close>

text \<open>The keys of the webhook rows: primary key and provider event id.\<close>

definition row_keys :: "WebhookEvent list \<Rightarrow> (uuid \<times> string) list" where
  "row_keys rows = map (\<lambda>e. (we_id e, we_stripe_event_id e)) rows"

text \<open>The error message that \<open>process_webhook\<close> records for the result of dispatch.\<close>

definition error_of :: "unit res \<Rightarrow> string option" where
  "error_of r = (case r of Inr u \<Rightarrow> None | Inl e \<Rightarrow> Some (''Error processing webhook: '' @ exn_str e))"

definition is_webhook_effect :: "effect \<Rightarrow> bool" where
  "is_webhook_effect x = (case x of WebhookInsert u \<Rightarrow> True | WebhookUpdate u \<Rightarrow> True | _ \<Rightarrow> False)"

text \<open>
  Steps 1 and 2 of \<open>process_webhook\<close> for an event that is not short-circuited: the id of
  the row it works on and the store in which dispatch starts.
\<close>

definition entry_id :: "db \<Rightarrow> WebhookEvent option \<Rightarrow> uuid" where
  "entry_id s found = (case found of Some ex \<Rightarrow> we_id ex | None \<Rightarrow> next_uuid s)"

definition entry_db :: "world \<Rightarrow> stripe_event \<Rightarrow> string \<Rightarrow> db \<Rightarrow> WebhookEvent option \<Rightarrow> db" where
  "entry_db w event payload s found =
     WebhookEventRepository_mark_processing w (entry_id s found)
       (case found of
          Some ex \<Rightarrow> WebhookEventRepository_increment_retry_count (we_id ex) s
        | None \<Rightarrow> snd (WebhookEventRepository_create w (se_id event) (se_type event) payload
                         (extract_order_id_from_event event) s))"

text \<open>The row rewrites of \<open>update_status\<close> and \<open>update_payment_intent\<close>.\<close>

definition set_status :: "world \<Rightarrow> OrderStatus \<Rightarrow> datetime option \<Rightarrow> Order \<Rightarrow> Order" where
  "set_status w st p r =
     (case p of
        None \<Rightarrow> r\<lparr> status := st, updated_at := now w \<rparr>
      | Some t \<Rightarrow> r\<lparr> status := st, updated_at := now w, paid_at := Some t \<rparr>)"

definition set_intent :: "world \<Rightarrow> string \<Rightarrow> string \<Rightarrow> Order \<Rightarrow> Order" where
  "set_intent w pid secret r =
     r\<lparr> stripe_payment_intent_id := Some pid, stripe_client_secret := Some secret,
        status := PENDING_PAYMENT, updated_at := now w \<rparr>"


text \<open>
  The three side effects of an order transition, numbered in the order the specification
  asks for; every other effect is 0.
\<close>

fun phase :: "effect \<Rightarrow> nat" where
  "phase (OrderUpdate oid) = 1"
| "phase (AuditInsert oid act) = 2"
| "phase (Publish k) = 3"
| "phase x = 0"

definition transition_effects :: "effect list \<Rightarrow> effect list" where
  "transition_effects xs = filter (\<lambda>x. phase x \<noteq> 0) xs"

text \<open>
  The operations of the orchestrator as calls, each with what the outside world answers
  while it runs, and the stores that a sequence of calls goes through, oldest first.
\<close>

datatype call =
  CreateOrder world uuid OrderCreate
| GetOrder uuid uuid
| ListOrders uuid int int "OrderStatus option"
| CancelOrder world uuid uuid
| ProcessWebhook world stripe_event string

fun apply_call :: "PackagePricing \<Rightarrow> call \<Rightarrow> db \<Rightarrow> db" where
  "apply_call pricing (CreateOrder w uid order_data) s = snd (create_order pricing w uid order_data s)"
| "apply_call pricing (GetOrder oid uid) s = s"
| "apply_call pricing (ListOrders uid page page_size st) s = s"
| "apply_call pricing (CancelOrder w oid uid) s = snd (cancel_order w oid uid s)"
| "apply_call pricing (ProcessWebhook w event payload) s = snd (process_webhook w event payload s)"

fun run :: "PackagePricing \<Rightarrow> db \<Rightarrow> call list \<Rightarrow> db list" where
  "run pricing s [] = [s]"
| "run pricing s (c # cs) = s # run pricing (apply_call pricing c s) cs"

text \<open>
  The invariant of the order table: primary keys are distinct and were drawn from the
  supply, and a paid order has its \<open>paid_at\<close>.
\<close>

definition inv :: "db \<Rightarrow> bool" where
  "inv s \<longleftrightarrow> distinct (map o_id (orders s))
           \<and> (\<forall>r \<in> set (orders s). o_id r < next_uuid s)
           \<and> (\<forall>r \<in> set (orders s). status r = PAID \<longrightarrow> paid_at r \<noteq> None)"

text \<open>
  What one call may do to an order: keep its \<open>paid_at\<close> (and not make it paid), or move it
  into paid and set \<open>paid_at\<close>. An order that was not there before has no \<open>paid_at\<close>.
\<close>

definition order_step :: "db \<Rightarrow> db \<Rightarrow> bool" where
  "order_step s s' \<longleftrightarrow>
     (\<forall>r' \<in> set (orders s').
        (\<forall>r \<in> set (orders s). o_id r = o_id r' \<longrightarrow>
           (paid_at r' = paid_at r \<and> (status r' = PAID \<longrightarrow> status r = PAID))
           \<or> (status r \<noteq> PAID \<and> status r' = PAID \<and> paid_at r' \<noteq> None))
        \<and> ((\<forall>r \<in> set (orders s). o_id r \<noteq> o_id r') \<longrightarrow> paid_at r' = None \<and> status r' \<noteq> PAID))
     \<and> (\<forall>r \<in> set (orders s). \<exists>r' \<in> set (orders s'). o_id r' = o_id r)"

section \<open>Example stores and events\<close>

definition db_empty :: db where
  "db_empty = \<lparr> orders = [], webhook_events = [], payment_audit = [], published = [],
                effects = [], next_uuid = 1 \<rparr>"

definition pricing_default :: PackagePricing where
  "pricing_default = \<lparr> basic_price = 999, standard_price = 2999, premium_price = 9999 \<rparr>"

definition world_up :: world where
  "world_up = \<lparr> now = 10, stripe_create = Inr (''pi_1'', ''secret_1''), stripe_cancel = None,
                broker_error = None \<rparr>"

definition world_broker_down :: world where
  "world_broker_down = \<lparr> now = 20, stripe_create = Inr (''pi_1'', ''secret_1''),
                         stripe_cancel = None, broker_error = Some ''connection refused'' \<rparr>"

definition evt_succeeded :: stripe_event where
  "evt_succeeded = \<lparr> se_id = ''evt_1'', se_type = ''payment_intent.succeeded'', pi_id = ''pi_1'',
                     pi_metadata_order_id = Some ''1'', pi_last_payment_error = LpeAbsent \<rparr>"

text \<open>The store after user 7 has ordered the basic package: order 1, pending payment.\<close>

definition db_pending :: db where
  "db_pending = snd (create_order pricing_default world_up 7
                       \<lparr> oc_package_type = BASIC, oc_metadata = None \<rparr> db_empty)"

definition db_paid :: db where
  "db_paid = snd (process_webhook world_up evt_succeeded ''{}'' db_pending)"

definition evt_succeeded_again :: stripe_event where
  "evt_succeeded_again = evt_succeeded\<lparr> se_id := ''evt_2'' \<rparr>"

definition world_gateway_down :: world where
  "world_gateway_down = \<lparr> now = 30, stripe_create = Inl ''api unreachable'', stripe_cancel = None,
                          broker_error = None \<rparr>"



definition evt_failed :: stripe_event where
  "evt_failed = \<lparr> se_id = ''evt_3'', se_type = ''payment_intent.payment_failed'', pi_id = ''pi_1'',
                  pi_metadata_order_id = Some ''1'',
                  pi_last_payment_error = LpeObject (Some ''card declined'') \<rparr>"

definition db_failed :: db where
  "db_failed = snd (process_webhook world_up evt_failed ''{}'' db_paid)"

definition calls_example :: "call list" where
  "calls_example =
     [CreateOrder world_up 7 \<lparr> oc_package_type = BASIC, oc_metadata = None \<rparr>,
      ProcessWebhook world_up evt_succeeded ''{}'',
      ProcessWebhook world_up evt_failed ''{}'']"

definition order_failed :: Order where
  "order_failed =
     \<lparr> o_id = 1, user_id = 7, package_type = BASIC, amount = 999, currency = ''USD'',
       status = FAILED, stripe_payment_intent_id = Some ''pi_1'',
       stripe_client_secret = Some ''secret_1'', description = Some ''Basic Package'',
       extra_metadata = None, created_at = 10, updated_at = 10, paid_at = Some 10 \<rparr>"




section \<open>Basic facts about the repositories\<close>

lemmas repo_defs =
  OrderRepository_create_def OrderRepository_get_by_id_def
  OrderRepository_get_by_payment_intent_id_def OrderRepository_update_payment_intent_def
  OrderRepository_update_status_def WebhookEventRepository_create_def
  WebhookEventRepository_get_by_stripe_event_id_def WebhookEventRepository_mark_processing_def
  WebhookEventRepository_mark_processed_def WebhookEventRepository_increment_retry_count_def
  PaymentAuditRepository_log_action_def StripeService_create_payment_intent_def
  StripeService_cancel_payment_intent_def broker_publish_def publish_order_created_def
  publish_order_paid_def publish_order_failed_def scalar_one_or_none_def

lemmas eval_defs =
  repo_defs Let_def extract_order_id_from_event_def startswith_def UUID_def digit_val_def

lemma db_pending_eq:
  "db_pending =
     \<lparr> orders =
         [\<lparr> o_id = 1, user_id = 7, package_type = BASIC, amount = 999, currency = ''USD'',
            status = PENDING_PAYMENT, stripe_payment_intent_id = Some ''pi_1'',
            stripe_client_secret = Some ''secret_1'', description = Some ''Basic Package'',
            extra_metadata = None, created_at = 10, updated_at = 10, paid_at = None \<rparr>],
       webhook_events = [],
       payment_audit =
         [\<lparr> pa_id = 2, pa_order_id = 1, action = ''order_created'', old_status = None,
            new_status = CREATED, pa_stripe_event_id = None,
            details = Some ''Package: PackageType.BASIC'', pa_created_at = 10 \<rparr>,
          \<lparr> pa_id = 3, pa_order_id = 1, action = ''payment_intent_created'',
            old_status = Some CREATED, new_status = PENDING_PAYMENT, pa_stripe_event_id = None,
            details = Some ''Payment Intent ID: pi_1'', pa_created_at = 10 \<rparr>],
       published = [(''order.created'', OrderCreatedEvent 1 7 BASIC 999 ''USD'' 10)],
       effects = [OrderInsert 1, AuditInsert 1 ''order_created'', StripeCreate 1, OrderUpdate 1,
                  AuditInsert 1 ''payment_intent_created'', Publish ''order.created''],
       next_uuid = 4 \<rparr>"
  by (simp add: db_pending_def create_order_def db_empty_def pricing_default_def world_up_def
      repo_defs Let_def)

named_theorems frame

lemma scalar_one_or_none_simps [simp]:
  "scalar_one_or_none [] = Inr None"
  "scalar_one_or_none [x] = Inr (Some x)"
  "scalar_one_or_none (x # y # zs) = Inl MultipleResultsFound"
  by (simp_all add: scalar_one_or_none_def)

lemma scalar_one_or_none_Some: "scalar_one_or_none rows = Inr (Some x) \<longleftrightarrow> rows = [x]"
  by (auto simp: scalar_one_or_none_def split: list.splits)

lemma scalar_one_or_none_None: "scalar_one_or_none rows = Inr None \<longleftrightarrow> rows = []"
  by (auto simp: scalar_one_or_none_def split: list.splits)

lemma filter_map_key:
  assumes "\<And>r. key (f r) = key r"
  shows "filter (\<lambda>r. key r = k) (map f rows) = map f (filter (\<lambda>r. key r = k) rows)"
  using assms by (induction rows) simp_all

lemma update_status_frame [frame]:
  "webhook_events (snd (OrderRepository_update_status w oid st p s)) = webhook_events s"
  "payment_audit (snd (OrderRepository_update_status w oid st p s)) = payment_audit s"
  "published (snd (OrderRepository_update_status w oid st p s)) = published s"
  "next_uuid (snd (OrderRepository_update_status w oid st p s)) = next_uuid s"
  "effects (snd (OrderRepository_update_status w oid st p s)) = effects s @ [OrderUpdate oid]"
  by (simp_all add: OrderRepository_update_status_def Let_def)

lemma log_action_frame [frame]:
  "webhook_events (snd (PaymentAuditRepository_log_action w oid a n ol sid d s)) = webhook_events s"
  "orders (snd (PaymentAuditRepository_log_action w oid a n ol sid d s)) = orders s"
  "published (snd (PaymentAuditRepository_log_action w oid a n ol sid d s)) = published s"
  "next_uuid (snd (PaymentAuditRepository_log_action w oid a n ol sid d s)) = Suc (next_uuid s)"
  "effects (snd (PaymentAuditRepository_log_action w oid a n ol sid d s)) = effects s @ [AuditInsert oid a]"
  "payment_audit (snd (PaymentAuditRepository_log_action w oid a n ol sid d s)) =
     payment_audit s @ [fst (PaymentAuditRepository_log_action w oid a n ol sid d s)]"
  by (simp_all add: PaymentAuditRepository_log_action_def Let_def)

lemma broker_publish_frame [frame]:
  "webhook_events (snd (broker_publish w k ev s)) = webhook_events s"
  "orders (snd (broker_publish w k ev s)) = orders s"
  "payment_audit (snd (broker_publish w k ev s)) = payment_audit s"
  "next_uuid (snd (broker_publish w k ev s)) = next_uuid s"
  by (simp_all add: broker_publish_def split: option.splits)

lemma mark_processed_frame [frame]:
  "orders (WebhookEventRepository_mark_processed w eid oid err s) = orders s"
  "payment_audit (WebhookEventRepository_mark_processed w eid oid err s) = payment_audit s"
  "published (WebhookEventRepository_mark_processed w eid oid err s) = published s"
  "next_uuid (WebhookEventRepository_mark_processed w eid oid err s) = next_uuid s"
  "effects (WebhookEventRepository_mark_processed w eid oid err s) = effects s @ [WebhookUpdate eid]"
  by (simp_all add: WebhookEventRepository_mark_processed_def)

lemma mark_processing_frame [frame]:
  "orders (WebhookEventRepository_mark_processing w eid s) = orders s"
  "payment_audit (WebhookEventRepository_mark_processing w eid s) = payment_audit s"
  "published (WebhookEventRepository_mark_processing w eid s) = published s"
  "next_uuid (WebhookEventRepository_mark_processing w eid s) = next_uuid s"
  "effects (WebhookEventRepository_mark_processing w eid s) = effects s @ [WebhookUpdate eid]"
  by (simp_all add: WebhookEventRepository_mark_processing_def)

lemma increment_retry_count_frame [frame]:
  "orders (WebhookEventRepository_increment_retry_count eid s) = orders s"
  "payment_audit (WebhookEventRepository_increment_retry_count eid s) = payment_audit s"
  "published (WebhookEventRepository_increment_retry_count eid s) = published s"
  "next_uuid (WebhookEventRepository_increment_retry_count eid s) = next_uuid s"
  "effects (WebhookEventRepository_increment_retry_count eid s) = effects s @ [WebhookUpdate eid]"
  by (simp_all add: WebhookEventRepository_increment_retry_count_def)

lemma webhook_create_frame [frame]:
  "orders (snd (WebhookEventRepository_create w sid ty pl oid s)) = orders s"
  "payment_audit (snd (WebhookEventRepository_create w sid ty pl oid s)) = payment_audit s"
  "published (snd (WebhookEventRepository_create w sid ty pl oid s)) = published s"
  "next_uuid (snd (WebhookEventRepository_create w sid ty pl oid s)) = Suc (next_uuid s)"
  "effects (snd (WebhookEventRepository_create w sid ty pl oid s)) = effects s @ [WebhookInsert (next_uuid s)]"
  "webhook_events (snd (WebhookEventRepository_create w sid ty pl oid s)) =
     webhook_events s @ [fst (WebhookEventRepository_create w sid ty pl oid s)]"
  by (simp_all add: WebhookEventRepository_create_def Let_def)

lemma webhook_create_row:
  "we_id (fst (WebhookEventRepository_create w sid ty pl oid s)) = next_uuid s"
  "we_stripe_event_id (fst (WebhookEventRepository_create w sid ty pl oid s)) = sid"
  "processed (fst (WebhookEventRepository_create w sid ty pl oid s)) = False"
  by (simp_all add: WebhookEventRepository_create_def Let_def)


lemma row_keys_simps [simp]:
  "row_keys [] = []"
  "row_keys (e # rows) = (we_id e, we_stripe_event_id e) # row_keys rows"
  "row_keys (rows @ rows') = row_keys rows @ row_keys rows'"
  by (simp_all add: row_keys_def)

lemma row_keys_map:
  assumes "\<And>e. we_id (g e) = we_id e \<and> we_stripe_event_id (g e) = we_stripe_event_id e"
  shows "row_keys (map g rows) = row_keys rows"
  using assms by (induction rows) simp_all

lemma row_keys_filter_single:
  "row_keys rows' = row_keys rows \<Longrightarrow>
   filter (\<lambda>e. we_stripe_event_id e = k) rows = [ex] \<Longrightarrow>
   \<exists>ex'. filter (\<lambda>e. we_stripe_event_id e = k) rows' = [ex'] \<and> we_id ex' = we_id ex"
proof (induction rows arbitrary: rows')
  case Nil
  then show ?case by simp
next
  case (Cons a rows)
  then obtain a' rest where r': "rows' = a' # rest" by (cases rows') auto
  with Cons.prems have k: "we_id a' = we_id a" "we_stripe_event_id a' = we_stripe_event_id a"
    and rk: "row_keys rest = row_keys rows" by simp_all
  show ?case
  proof (cases "we_stripe_event_id a = k")
    case True
    with Cons.prems(2) have "filter (\<lambda>e. we_stripe_event_id e = k) rows = []" "ex = a" by simp_all
    then have "\<forall>e \<in> set rows. we_stripe_event_id e \<noteq> k" by (simp add: filter_empty_conv)
    then have "k \<notin> snd ` set (row_keys rows)" by (auto simp: row_keys_def)
    with rk have "k \<notin> snd ` set (row_keys rest)" by simp
    then have "filter (\<lambda>e. we_stripe_event_id e = k) rest = []"
      by (auto simp: row_keys_def filter_empty_conv image_iff)
    with True k r' \<open>ex = a\<close> show ?thesis by simp
  next
    case False
    with Cons.prems(2) have "filter (\<lambda>e. we_stripe_event_id e = k) rows = [ex]" by simp
    from Cons.IH[OF rk this] False k r' show ?thesis by simp
  qed
qed

lemma row_keys_single:
  assumes "row_keys rows' = row_keys rows"
    and "\<exists>ex. filter (\<lambda>e. we_stripe_event_id e = k) rows = [ex] \<and> we_id ex = eid"
  shows "\<exists>ex. filter (\<lambda>e. we_stripe_event_id e = k) rows' = [ex] \<and> we_id ex = eid"
proof -
  from assms(2) obtain ex where ex: "filter (\<lambda>e. we_stripe_event_id e = k) rows = [ex]"
    and id: "we_id ex = eid" by blast
  from row_keys_filter_single[OF assms(1) ex] id show ?thesis by auto
qed

lemma mark_processed_keys [frame]:
  "row_keys (webhook_events (WebhookEventRepository_mark_processed w eid oid err s)) = row_keys (webhook_events s)"
  unfolding WebhookEventRepository_mark_processed_def
  by simp (rule row_keys_map, simp add: Let_def split: option.splits)

lemma mark_processing_keys [frame]:
  "row_keys (webhook_events (WebhookEventRepository_mark_processing w eid s)) = row_keys (webhook_events s)"
  unfolding WebhookEventRepository_mark_processing_def
  by simp (rule row_keys_map, simp)

lemma increment_retry_count_keys [frame]:
  "row_keys (webhook_events (WebhookEventRepository_increment_retry_count eid s)) = row_keys (webhook_events s)"
  unfolding WebhookEventRepository_increment_retry_count_def
  by simp (rule row_keys_map, simp)

lemma handle_payment_succeeded_keys:
  "row_keys (webhook_events (snd (handle_payment_succeeded w ev eid s))) = row_keys (webhook_events s)"
  unfolding handle_payment_succeeded_def publish_order_paid_def
  by (simp add: Let_def split_beta frame split: sum.splits option.splits)

lemma handle_payment_failed_keys:
  "row_keys (webhook_events (snd (handle_payment_failed w ev eid s))) = row_keys (webhook_events s)"
  unfolding handle_payment_failed_def publish_order_failed_def
  by (simp add: Let_def split_beta frame split: sum.splits option.splits)

lemma handle_payment_canceled_keys:
  "row_keys (webhook_events (snd (handle_payment_canceled w ev eid s))) = row_keys (webhook_events s)"
  unfolding handle_payment_canceled_def
  by (simp add: Let_def split_beta frame split: sum.splits option.splits)

lemma dispatch_keys:
  "row_keys (webhook_events (snd (dispatch w ev eid s))) = row_keys (webhook_events s)"
  unfolding dispatch_def
  by (simp add: handle_payment_succeeded_keys handle_payment_failed_keys handle_payment_canceled_keys)

lemma mark_processed_row:
  assumes "filter (\<lambda>e. we_stripe_event_id e = k) (webhook_events s) = [ex]" and "we_id ex = eid"
  shows "\<exists>row. filter (\<lambda>e. we_stripe_event_id e = k)
                 (webhook_events (WebhookEventRepository_mark_processed w eid oid err s)) = [row]
           \<and> we_id row = eid \<and> processed row = (err = None) \<and> error_message row = err
           \<and> processed_at row = Some (now w)"
proof -
  let ?g = "\<lambda>e. if we_id e = eid
                   then (let e' = e\<lparr> processed := (err = None),
                                      processed_at := Some (now w),
                                      error_message := err \<rparr>
                         in case oid of None \<Rightarrow> e' | Some x \<Rightarrow> e'\<lparr> we_order_id := Some x \<rparr>)
                   else e"
  have "filter (\<lambda>e. we_stripe_event_id e = k) (map ?g (webhook_events s))
          = map ?g (filter (\<lambda>e. we_stripe_event_id e = k) (webhook_events s))"
    by (rule filter_map_key) (simp add: Let_def split: option.splits)
  with assms show ?thesis
    by (simp add: WebhookEventRepository_mark_processed_def Let_def split: option.splits)
qed



lemma process_webhook_steps:
  fixes d eid s2
  assumes "d = dispatch w event eid s2"
    and "case found of
           Some ex \<Rightarrow> \<not> processed ex \<and> eid = we_id ex \<and>
             s2 = WebhookEventRepository_mark_processing w eid
                    (WebhookEventRepository_increment_retry_count eid s)
         | None \<Rightarrow> eid = next_uuid s \<and>
             s2 = WebhookEventRepository_mark_processing w eid
                    (snd (WebhookEventRepository_create w (se_id event) (se_type event) payload
                            (extract_order_id_from_event event) s))"
    and "WebhookEventRepository_get_by_stripe_event_id s (se_id event) = Inr found"
  shows "process_webhook w event payload s =
           (fst d, WebhookEventRepository_mark_processed w eid None (error_of (fst d)) (snd d))"
  using assms
  by (cases found; cases "fst d")
     (simp_all add: process_webhook_def Let_def split_beta webhook_create_row error_of_def)

lemma process_webhook_run:
  assumes look: "WebhookEventRepository_get_by_stripe_event_id s (se_id event) = Inr found"
    and np: "\<And>ex. found = Some ex \<Longrightarrow> \<not> processed ex"
    and d: "d = dispatch w event (entry_id s found) (entry_db w event payload s found)"
  shows "process_webhook w event payload s =
           (fst d, WebhookEventRepository_mark_processed w (entry_id s found) None
                     (error_of (fst d)) (snd d))"
  by (rule process_webhook_steps[OF d _ look])
     (use np in \<open>simp add: entry_id_def entry_db_def split: option.splits\<close>)

lemma entry_db_row:
  assumes look: "WebhookEventRepository_get_by_stripe_event_id s (se_id event) = Inr found"
  shows "\<exists>ex. filter (\<lambda>e. we_stripe_event_id e = se_id event)
                (webhook_events (entry_db w event payload s found)) = [ex]
              \<and> we_id ex = entry_id s found"
proof -
  let ?s1 = "case found of
          Some ex \<Rightarrow> WebhookEventRepository_increment_retry_count (we_id ex) s
        | None \<Rightarrow> snd (WebhookEventRepository_create w (se_id event) (se_type event) payload
                         (extract_order_id_from_event event) s)"
  have row1: "\<exists>ex. filter (\<lambda>e. we_stripe_event_id e = se_id event) (webhook_events ?s1) = [ex]
                \<and> we_id ex = entry_id s found"
  proof (cases found)
    case None
    with look have "filter (\<lambda>e. we_stripe_event_id e = se_id event) (webhook_events s) = []"
      by (simp add: WebhookEventRepository_get_by_stripe_event_id_def scalar_one_or_none_None)
    with None show ?thesis
      by (simp add: entry_id_def frame webhook_create_row)
  next
    case (Some ex)
    with look have 1: "filter (\<lambda>e. we_stripe_event_id e = se_id event) (webhook_events s) = [ex]"
      by (simp add: WebhookEventRepository_get_by_stripe_event_id_def scalar_one_or_none_Some)
    have "row_keys (webhook_events ?s1) = row_keys (webhook_events s)"
      using Some by (simp add: frame)
    from row_keys_filter_single[OF this 1] Some show ?thesis
      by (simp add: entry_id_def)
  qed
  have "row_keys (webhook_events (entry_db w event payload s found)) = row_keys (webhook_events ?s1)"
    by (simp add: entry_db_def frame)
  from row_keys_single[OF this row1] show ?thesis .
qed

lemma entry_db_frame:
  "orders (entry_db w event payload s found) = orders s"
  "payment_audit (entry_db w event payload s found) = payment_audit s"
  "published (entry_db w event payload s found) = published s"
  by (cases found; simp add: entry_db_def frame)+

lemma entry_db_effects:
  "\<exists>pre. effects (entry_db w event payload s found) = effects s @ pre
         \<and> list_all is_webhook_effect pre"
  by (cases found; simp add: entry_db_def frame is_webhook_effect_def)

lemma db_paid_eq:
  "db_paid =
     \<lparr> orders =
         [\<lparr> o_id = 1, user_id = 7, package_type = BASIC, amount = 999, currency = ''USD'',
            status = PAID, stripe_payment_intent_id = Some ''pi_1'',
            stripe_client_secret = Some ''secret_1'', description = Some ''Basic Package'',
            extra_metadata = None, created_at = 10, updated_at = 10, paid_at = Some 10 \<rparr>],
       webhook_events =
         [\<lparr> we_id = 4, we_stripe_event_id = ''evt_1'', event_type = ''payment_intent.succeeded'',
            we_order_id = Some 1, processed = True, processing_started_at = Some 10,
            processed_at = Some 10, error_message = None, retry_count = 0,
            raw_payload = ''{}'', we_created_at = 10 \<rparr>],
       payment_audit =
         [\<lparr> pa_id = 2, pa_order_id = 1, action = ''order_created'', old_status = None,
            new_status = CREATED, pa_stripe_event_id = None,
            details = Some ''Package: PackageType.BASIC'', pa_created_at = 10 \<rparr>,
          \<lparr> pa_id = 3, pa_order_id = 1, action = ''payment_intent_created'',
            old_status = Some CREATED, new_status = PENDING_PAYMENT, pa_stripe_event_id = None,
            details = Some ''Payment Intent ID: pi_1'', pa_created_at = 10 \<rparr>,
          \<lparr> pa_id = 5, pa_order_id = 1, action = ''payment_succeeded'',
            old_status = Some PENDING_PAYMENT, new_status = PAID,
            pa_stripe_event_id = Some ''evt_1'', details = Some ''Payment Intent: pi_1'',
            pa_created_at = 10 \<rparr>],
       published = [(''order.created'', OrderCreatedEvent 1 7 BASIC 999 ''USD'' 10),
                    (''order.paid'', OrderPaidEvent 1 7 BASIC 999 ''USD'' 10 ''pi_1'')],
       effects = [OrderInsert 1, AuditInsert 1 ''order_created'', StripeCreate 1, OrderUpdate 1,
                  AuditInsert 1 ''payment_intent_created'', Publish ''order.created'',
                  WebhookInsert 4, WebhookUpdate 4, WebhookUpdate 4, OrderUpdate 1,
                  AuditInsert 1 ''payment_succeeded'', Publish ''order.paid'', WebhookUpdate 4],
       next_uuid = 6 \<rparr>"
  by (simp add: db_paid_def db_pending_eq process_webhook_def dispatch_def
      handle_payment_succeeded_def evt_succeeded_def world_up_def eval_defs)

lemma get_by_payment_intent_id_cong:
  "orders s' = orders s \<Longrightarrow>
   OrderRepository_get_by_payment_intent_id s' pid = OrderRepository_get_by_payment_intent_id s pid"
  by (simp add: OrderRepository_get_by_payment_intent_id_def)





lemma log_action_row:
  "pa_order_id (fst (PaymentAuditRepository_log_action w oid a n ol sid d s)) = oid"
  "action (fst (PaymentAuditRepository_log_action w oid a n ol sid d s)) = a"
  "new_status (fst (PaymentAuditRepository_log_action w oid a n ol sid d s)) = n"
  "old_status (fst (PaymentAuditRepository_log_action w oid a n ol sid d s)) = ol"
  "pa_stripe_event_id (fst (PaymentAuditRepository_log_action w oid a n ol sid d s)) = sid"
  by (simp_all add: PaymentAuditRepository_log_action_def Let_def)





lemma update_status_orders:
  "orders (snd (OrderRepository_update_status w oid st p s)) =
     map (\<lambda>r. if o_id r = oid then set_status w st p r else r) (orders s)"
  by (simp add: OrderRepository_update_status_def Let_def set_status_def)

lemma set_status_simps [simp]:
  "o_id (set_status w st p r) = o_id r"
  "user_id (set_status w st p r) = user_id r"
  "status (set_status w st p r) = st"
  "stripe_payment_intent_id (set_status w st p r) = stripe_payment_intent_id r"
  "paid_at (set_status w st p r) = (case p of None \<Rightarrow> paid_at r | Some t \<Rightarrow> Some t)"
  by (simp_all add: set_status_def split: option.splits)

lemma handle_payment_succeeded_orders:
  "orders (snd (handle_payment_succeeded w ev eid s)) =
     (case OrderRepository_get_by_payment_intent_id s (pi_id ev) of
        Inr (Some order) \<Rightarrow>
          if status order = PAID then orders s
          else map (\<lambda>r. if o_id r = o_id order then set_status w PAID (Some (now w)) r else r)
                 (orders s)
      | _ \<Rightarrow> orders s)"
  unfolding handle_payment_succeeded_def publish_order_paid_def
  by (simp add: Let_def split_beta frame update_status_orders split: sum.splits option.splits)

lemma handle_payment_failed_orders:
  "orders (snd (handle_payment_failed w ev eid s)) =
     (case OrderRepository_get_by_payment_intent_id s (pi_id ev) of
        Inr (Some order) \<Rightarrow>
          map (\<lambda>r. if o_id r = o_id order then set_status w FAILED None r else r) (orders s)
      | _ \<Rightarrow> orders s)"
  unfolding handle_payment_failed_def publish_order_failed_def
  by (simp add: Let_def split_beta frame update_status_orders split: sum.splits option.splits)

lemma handle_payment_canceled_orders:
  "orders (snd (handle_payment_canceled w ev eid s)) =
     (case OrderRepository_get_by_payment_intent_id s (pi_id ev) of
        Inr (Some order) \<Rightarrow>
          map (\<lambda>r. if o_id r = o_id order then set_status w CANCELLED None r else r) (orders s)
      | _ \<Rightarrow> orders s)"
  unfolding handle_payment_canceled_def
  by (simp add: Let_def split_beta frame update_status_orders split: sum.splits option.splits)

lemma set_status_intent_row:
  assumes "filter (\<lambda>r. stripe_payment_intent_id r = Some pid) rows = [order]"
  shows "filter (\<lambda>r. stripe_payment_intent_id r = Some pid)
           (map (\<lambda>r. if o_id r = o_id order then set_status w st p r else r) rows)
         = [set_status w st p order]"
proof -
  have "filter (\<lambda>r. stripe_payment_intent_id r = Some pid)
           (map (\<lambda>r. if o_id r = o_id order then set_status w st p r else r) rows)
        = map (\<lambda>r. if o_id r = o_id order then set_status w st p r else r)
            (filter (\<lambda>r. stripe_payment_intent_id r = Some pid) rows)"
    by (rule filter_map_key) simp
  with assms show ?thesis by simp
qed

lemma transition_effects_simps [simp]:
  "transition_effects [] = []"
  "transition_effects (xs @ ys) = transition_effects xs @ transition_effects ys"
  "transition_effects (x # xs) = (if phase x \<noteq> 0 then [x] else []) @ transition_effects xs"
  by (simp_all add: transition_effects_def)

lemma transition_effects_webhook:
  "list_all is_webhook_effect pre \<Longrightarrow> transition_effects pre = []"
  by (induction pre) (auto simp: is_webhook_effect_def split: effect.splits)

lemma broker_publish_effects:
  "effects (snd (broker_publish w k ev s)) =
     effects s @ (case broker_error w of None \<Rightarrow> [Publish k] | Some m \<Rightarrow> [])"
  "published (snd (broker_publish w k ev s)) =
     published s @ (case broker_error w of None \<Rightarrow> [(k, ev)] | Some m \<Rightarrow> [])"
  "fst (broker_publish w k ev s) =
     (case broker_error w of None \<Rightarrow> Inr () | Some m \<Rightarrow> Inl (BrokerError m))"
  by (simp_all add: broker_publish_def split: option.splits)

lemma update_status_fst:
  "fst (OrderRepository_update_status w oid st p s) =
     (case OrderRepository_get_by_id s oid of
        Inl e \<Rightarrow> Inl e
      | Inr None \<Rightarrow> Inr None
      | Inr (Some r) \<Rightarrow> Inr (Some (set_status w st p r)))"
proof -
  have "filter (\<lambda>r. o_id r = oid)
          (map (\<lambda>r. if o_id r = oid then set_status w st p r else r) (orders s))
        = map (\<lambda>r. if o_id r = oid then set_status w st p r else r)
            (filter (\<lambda>r. o_id r = oid) (orders s))"
    by (rule filter_map_key) simp
  also have "\<dots> = map (set_status w st p) (filter (\<lambda>r. o_id r = oid) (orders s))"
    by (rule map_cong) simp_all
  finally have rows: "filter (\<lambda>r. o_id r = oid)
          (map (\<lambda>r. if o_id r = oid then set_status w st p r else r) (orders s))
        = map (set_status w st p) (filter (\<lambda>r. o_id r = oid) (orders s))" .
  have "fst (OrderRepository_update_status w oid st p s)
      = scalar_one_or_none (filter (\<lambda>r. o_id r = oid)
          (orders (snd (OrderRepository_update_status w oid st p s))))"
    by (simp add: OrderRepository_update_status_def Let_def)
  then have "fst (OrderRepository_update_status w oid st p s)
      = scalar_one_or_none (map (set_status w st p) (filter (\<lambda>r. o_id r = oid) (orders s)))"
    by (simp only: update_status_orders rows)
  then show ?thesis
    by (simp add: OrderRepository_get_by_id_def scalar_one_or_none_def split: list.splits)
qed

lemma handle_payment_succeeded_effects:
  "\<exists>new. effects (snd (handle_payment_succeeded w ev eid s)) = effects s @ new
         \<and> sorted_wrt (<) (map phase (transition_effects new))"
  unfolding handle_payment_succeeded_def publish_order_paid_def
  by (simp add: Let_def split_beta frame broker_publish_effects
      split: sum.splits option.splits)

lemma handle_payment_failed_effects:
  "\<exists>new. effects (snd (handle_payment_failed w ev eid s)) = effects s @ new
         \<and> sorted_wrt (<) (map phase (transition_effects new))"
  unfolding handle_payment_failed_def publish_order_failed_def
  by (simp add: Let_def split_beta frame broker_publish_effects
      split: sum.splits option.splits)

lemma handle_payment_canceled_effects:
  "\<exists>new. effects (snd (handle_payment_canceled w ev eid s)) = effects s @ new
         \<and> sorted_wrt (<) (map phase (transition_effects new))"
  unfolding handle_payment_canceled_def
  by (simp add: Let_def split_beta frame split: sum.splits option.splits)

lemma dispatch_effects:
  "\<exists>new. effects (snd (dispatch w ev eid s)) = effects s @ new
         \<and> sorted_wrt (<) (map phase (transition_effects new))"
  unfolding dispatch_def
  by (simp add: handle_payment_succeeded_effects handle_payment_failed_effects
      handle_payment_canceled_effects)

lemma process_webhook_effects:
  "\<exists>new. effects (snd (process_webhook w event payload s)) = effects s @ new
         \<and> sorted_wrt (<) (map phase (transition_effects new))"
proof (cases "WebhookEventRepository_get_by_stripe_event_id s (se_id event)")
  case (Inl e)
  then show ?thesis by (simp add: process_webhook_def)
next
  case (Inr found)
  show ?thesis
  proof (cases "\<exists>ex. found = Some ex \<and> processed ex")
    case True
    then show ?thesis using Inr by (auto simp: process_webhook_def)
  next
    case False
    let ?eid = "entry_id s found"
    let ?s2 = "entry_db w event payload s found"
    let ?d = "dispatch w event ?eid ?s2"
    from False have np: "\<And>ex. found = Some ex \<Longrightarrow> \<not> processed ex" by blast
    from entry_db_effects[of w event payload s found] obtain pre where
      pre: "effects ?s2 = effects s @ pre" "list_all is_webhook_effect pre" by blast
    from dispatch_effects[of w event ?eid ?s2] obtain new where
      new: "effects (snd ?d) = effects ?s2 @ new"
           "sorted_wrt (<) (map phase (transition_effects new))" by blast
    have "effects (snd (process_webhook w event payload s))
            = effects s @ (pre @ new @ [WebhookUpdate ?eid])"
      using process_webhook_run[OF Inr np refl, of w payload] pre(1) new(1)
      by (simp add: frame)
    moreover have "transition_effects (pre @ new @ [WebhookUpdate ?eid]) = transition_effects new"
      using transition_effects_webhook[OF pre(2)] by simp
    ultimately show ?thesis using new(2) by metis
  qed
qed

lemma set_status_id_row:
  assumes "filter (\<lambda>r. o_id r = oid) rows = [order]"
  shows "filter (\<lambda>r. o_id r = oid)
           (map (\<lambda>r. if o_id r = oid then set_status w st p r else r) rows)
         = [set_status w st p order]"
proof -
  have "filter (\<lambda>r. o_id r = oid)
           (map (\<lambda>r. if o_id r = oid then set_status w st p r else r) rows)
        = map (\<lambda>r. if o_id r = oid then set_status w st p r else r)
            (filter (\<lambda>r. o_id r = oid) rows)"
    by (rule filter_map_key) simp
  moreover have "o_id order = oid"
  proof -
    have "order \<in> set (filter (\<lambda>r. o_id r = oid) rows)" using assms by simp
    then show ?thesis by simp
  qed
  ultimately show ?thesis using assms by simp
qed

lemma publish_failure_succeeded:
  assumes look: "WebhookEventRepository_get_by_stripe_event_id s (se_id event) = Inr found"
    and np: "\<forall>ex. found = Some ex \<longrightarrow> \<not> processed ex"
    and res: "OrderRepository_get_by_payment_intent_id s (pi_id event) = Inr (Some order)"
    and uniq: "OrderRepository_get_by_id s (o_id order) = Inr (Some order)"
    and ty: "se_type event = ''payment_intent.succeeded''" and st: "status order \<noteq> PAID"
    and down: "broker_error w = Some m"
  shows "\<exists>s' order' a new.
           process_webhook w event payload s = (Inl (BrokerError m), s')
         \<and> OrderRepository_get_by_id s' (o_id order) = Inr (Some order')
         \<and> status order' = PAID \<and> paid_at order' = Some (now w)
         \<and> payment_audit s' = payment_audit s @ [a]
         \<and> pa_order_id a = o_id order \<and> action a = ''payment_succeeded'' \<and> new_status a = PAID
         \<and> published s' = published s
         \<and> effects s' = effects s @ new
         \<and> transition_effects new
              = [OrderUpdate (o_id order), AuditInsert (o_id order) ''payment_succeeded'']"
proof -
  let ?eid = "entry_id s found"
  let ?s2 = "entry_db w event payload s found"
  let ?d = "dispatch w event ?eid ?s2"
  let ?s' = "snd (process_webhook w event payload s)"
  from uniq have rows: "filter (\<lambda>r. o_id r = o_id order) (orders s) = [order]"
    by (simp add: OrderRepository_get_by_id_def scalar_one_or_none_Some)
  from res have res2: "OrderRepository_get_by_payment_intent_id ?s2 (pi_id event) = Inr (Some order)"
    using get_by_payment_intent_id_cong[OF entry_db_frame(1)] by simp
  from entry_db_effects[of w event payload s found] obtain pre where
    pre: "effects ?s2 = effects s @ pre" "list_all is_webhook_effect pre" by blast
  have pw: "process_webhook w event payload s =
      (fst ?d, WebhookEventRepository_mark_processed w ?eid None (error_of (fst ?d)) (snd ?d))"
    using process_webhook_run[OF look _ refl, of w payload] np by simp
  have upd: "fst (OrderRepository_update_status w (o_id order) PAID (Some (now w))
                (WebhookEventRepository_mark_processed w ?eid (Some (o_id order)) None ?s2))
             = Inr (Some (set_status w PAID (Some (now w)) order))"
    using rows
    by (simp add: update_status_fst OrderRepository_get_by_id_def frame entry_db_frame)
  have d1: "fst ?d = Inl (BrokerError m)"
    using ty st res2 down upd
    by (simp add: dispatch_def handle_payment_succeeded_def publish_order_paid_def Let_def
        split_beta broker_publish_effects)
  have d2: "orders (snd ?d) =
      map (\<lambda>r. if o_id r = o_id order then set_status w PAID (Some (now w)) r else r) (orders s)"
    using ty st res2
    by (simp add: dispatch_def handle_payment_succeeded_orders entry_db_frame)
  have d3: "\<exists>a. payment_audit (snd ?d) = payment_audit s @ [a]
         \<and> pa_order_id a = o_id order \<and> action a = ''payment_succeeded'' \<and> new_status a = PAID"
    using ty st res2 down upd
    by (simp add: dispatch_def handle_payment_succeeded_def publish_order_paid_def Let_def
        split_beta frame entry_db_frame log_action_row)
  have d4: "published (snd ?d) = published s"
    using ty st res2 down upd
    by (simp add: dispatch_def handle_payment_succeeded_def publish_order_paid_def Let_def
        split_beta frame entry_db_frame broker_publish_effects)
  have d5: "effects (snd ?d) = effects s @ pre @
              [WebhookUpdate ?eid, OrderUpdate (o_id order),
               AuditInsert (o_id order) ''payment_succeeded'']"
    using ty st res2 down upd pre(1)
    by (simp add: dispatch_def handle_payment_succeeded_def publish_order_paid_def Let_def
        split_beta frame broker_publish_effects)
  have s1: "fst (process_webhook w event payload s) = Inl (BrokerError m)"
    using pw d1 by simp
  have s2: "OrderRepository_get_by_id ?s' (o_id order)
              = Inr (Some (set_status w PAID (Some (now w)) order))"
    using pw d2 set_status_id_row[OF rows, of w PAID "Some (now w)"]
    by (simp add: OrderRepository_get_by_id_def frame)
  have s3: "\<exists>a. payment_audit ?s' = payment_audit s @ [a]
         \<and> pa_order_id a = o_id order \<and> action a = ''payment_succeeded'' \<and> new_status a = PAID"
    using pw d3 by (simp add: frame)
  have s4: "published ?s' = published s"
    using pw d4 by (simp add: frame)
  have s5: "effects ?s' = effects s @ (pre @
              [WebhookUpdate ?eid, OrderUpdate (o_id order),
               AuditInsert (o_id order) ''payment_succeeded'', WebhookUpdate ?eid])"
    using pw d5 by (simp add: frame)
  have s6: "transition_effects (pre @
              [WebhookUpdate ?eid, OrderUpdate (o_id order),
               AuditInsert (o_id order) ''payment_succeeded'', WebhookUpdate ?eid])
            = [OrderUpdate (o_id order), AuditInsert (o_id order) ''payment_succeeded'']"
    using transition_effects_webhook[OF pre(2)] by simp
  from s3 obtain a where a: "payment_audit ?s' = payment_audit s @ [a]"
         "pa_order_id a = o_id order" "action a = ''payment_succeeded''" "new_status a = PAID"
    by blast
  show ?thesis
    apply (rule exI[where x = "?s'"])
    apply (rule exI[where x = "set_status w PAID (Some (now w)) order"])
    apply (rule exI[where x = a])
    apply (rule exI[where x = "pre @
              [WebhookUpdate ?eid, OrderUpdate (o_id order),
               AuditInsert (o_id order) ''payment_succeeded'', WebhookUpdate ?eid]"])
    using s1 s2 a s4 s5 s6 by (simp add: prod_eq_iff)
qed

lemma publish_failure_failed:
  assumes look: "WebhookEventRepository_get_by_stripe_event_id s (se_id event) = Inr found"
    and np: "\<forall>ex. found = Some ex \<longrightarrow> \<not> processed ex"
    and res: "OrderRepository_get_by_payment_intent_id s (pi_id event) = Inr (Some order)"
    and uniq: "OrderRepository_get_by_id s (o_id order) = Inr (Some order)"
    and ty: "se_type event = ''payment_intent.payment_failed''"
    and st: "failure_reason (pi_last_payment_error event) = Inr reason"
    and down: "broker_error w = Some m"
  shows "\<exists>s' order' a new.
           process_webhook w event payload s = (Inl (BrokerError m), s')
         \<and> OrderRepository_get_by_id s' (o_id order) = Inr (Some order')
         \<and> status order' = FAILED
         \<and> payment_audit s' = payment_audit s @ [a]
         \<and> pa_order_id a = o_id order \<and> action a = ''payment_failed'' \<and> new_status a = FAILED
         \<and> published s' = published s
         \<and> effects s' = effects s @ new
         \<and> transition_effects new
              = [OrderUpdate (o_id order), AuditInsert (o_id order) ''payment_failed'']"
proof -
  let ?eid = "entry_id s found"
  let ?s2 = "entry_db w event payload s found"
  let ?d = "dispatch w event ?eid ?s2"
  let ?s' = "snd (process_webhook w event payload s)"
  from uniq have rows: "filter (\<lambda>r. o_id r = o_id order) (orders s) = [order]"
    by (simp add: OrderRepository_get_by_id_def scalar_one_or_none_Some)
  from res have res2: "OrderRepository_get_by_payment_intent_id ?s2 (pi_id event) = Inr (Some order)"
    using get_by_payment_intent_id_cong[OF entry_db_frame(1)] by simp
  from entry_db_effects[of w event payload s found] obtain pre where
    pre: "effects ?s2 = effects s @ pre" "list_all is_webhook_effect pre" by blast
  have pw: "process_webhook w event payload s =
      (fst ?d, WebhookEventRepository_mark_processed w ?eid None (error_of (fst ?d)) (snd ?d))"
    using process_webhook_run[OF look _ refl, of w payload] np by simp
  have upd: "fst (OrderRepository_update_status w (o_id order) FAILED None
                (WebhookEventRepository_mark_processed w ?eid (Some (o_id order)) None ?s2))
             = Inr (Some (set_status w FAILED None order))"
    using rows
    by (simp add: update_status_fst OrderRepository_get_by_id_def frame entry_db_frame)
  have d1: "fst ?d = Inl (BrokerError m)"
    using ty st res2 down upd
    by (simp add: dispatch_def handle_payment_failed_def publish_order_failed_def Let_def
        split_beta broker_publish_effects)
  have d2: "orders (snd ?d) =
      map (\<lambda>r. if o_id r = o_id order then set_status w FAILED None r else r) (orders s)"
    using ty st res2
    by (simp add: dispatch_def handle_payment_failed_orders entry_db_frame)
  have d3: "\<exists>a. payment_audit (snd ?d) = payment_audit s @ [a]
         \<and> pa_order_id a = o_id order \<and> action a = ''payment_failed'' \<and> new_status a = FAILED"
    using ty st res2 down upd
    by (simp add: dispatch_def handle_payment_failed_def publish_order_failed_def Let_def
        split_beta frame entry_db_frame log_action_row)
  have d4: "published (snd ?d) = published s"
    using ty st res2 down upd
    by (simp add: dispatch_def handle_payment_failed_def publish_order_failed_def Let_def
        split_beta frame entry_db_frame broker_publish_effects)
  have d5: "effects (snd ?d) = effects s @ pre @
              [WebhookUpdate ?eid, OrderUpdate (o_id order),
               AuditInsert (o_id order) ''payment_failed'']"
    using ty st res2 down upd pre(1)
    by (simp add: dispatch_def handle_payment_failed_def publish_order_failed_def Let_def
        split_beta frame broker_publish_effects)
  have s1: "fst (process_webhook w event payload s) = Inl (BrokerError m)"
    using pw d1 by simp
  have s2: "OrderRepository_get_by_id ?s' (o_id order)
              = Inr (Some (set_status w FAILED None order))"
    using pw d2 set_status_id_row[OF rows, of w FAILED None]
    by (simp add: OrderRepository_get_by_id_def frame)
  have s3: "\<exists>a. payment_audit ?s' = payment_audit s @ [a]
         \<and> pa_order_id a = o_id order \<and> action a = ''payment_failed'' \<and> new_status a = FAILED"
    using pw d3 by (simp add: frame)
  have s4: "published ?s' = published s"
    using pw d4 by (simp add: frame)
  have s5: "effects ?s' = effects s @ (pre @
              [WebhookUpdate ?eid, OrderUpdate (o_id order),
               AuditInsert (o_id order) ''payment_failed'', WebhookUpdate ?eid])"
    using pw d5 by (simp add: frame)
  have s6: "transition_effects (pre @
              [WebhookUpdate ?eid, OrderUpdate (o_id order),
               AuditInsert (o_id order) ''payment_failed'', WebhookUpdate ?eid])
            = [OrderUpdate (o_id order), AuditInsert (o_id order) ''payment_failed'']"
    using transition_effects_webhook[OF pre(2)] by simp
  from s3 obtain a where a: "payment_audit ?s' = payment_audit s @ [a]"
         "pa_order_id a = o_id order" "action a = ''payment_failed''" "new_status a = FAILED"
    by blast
  show ?thesis
    apply (rule exI[where x = "?s'"])
    apply (rule exI[where x = "set_status w FAILED None order"])
    apply (rule exI[where x = a])
    apply (rule exI[where x = "pre @
              [WebhookUpdate ?eid, OrderUpdate (o_id order),
               AuditInsert (o_id order) ''payment_failed'', WebhookUpdate ?eid]"])
    using s1 s2 a s4 s5 s6 by (simp add: prod_eq_iff)
qed

lemma distinct_ids_eq:
  "distinct (map o_id rows) \<Longrightarrow> r \<in> set rows \<Longrightarrow> r' \<in> set rows \<Longrightarrow> o_id r = o_id r' \<Longrightarrow> r = r'"
  by (meson distinct_map inj_onD)

lemma step_keep:
  assumes "inv s"
    and shape: "orders s' = map f (orders s @ extra)"
    and f: "\<And>r. o_id (f r) = o_id r \<and> paid_at (f r) = paid_at r
                 \<and> (status (f r) = PAID \<longrightarrow> status r = PAID)"
    and extra: "\<And>new. new \<in> set extra \<Longrightarrow>
                  o_id new = next_uuid s \<and> paid_at new = None \<and> status new \<noteq> PAID
                  \<and> next_uuid s < next_uuid s'"
    and len: "length extra \<le> 1"
    and le: "next_uuid s \<le> next_uuid s'"
  shows "inv s' \<and> order_step s s'"
proof -
  from assms(1) have d: "distinct (map o_id (orders s))"
    and lt: "\<And>r. r \<in> set (orders s) \<Longrightarrow> o_id r < next_uuid s"
    and pd: "\<And>r. r \<in> set (orders s) \<Longrightarrow> status r = PAID \<Longrightarrow> paid_at r \<noteq> None"
    by (auto simp: inv_def)
  have ids: "map o_id (orders s') = map o_id (orders s) @ map o_id extra"
    by (simp add: shape f o_def)
  have mem: "\<exists>r0. r' = f r0 \<and> (r0 \<in> set (orders s) \<or> r0 \<in> set extra)"
    if "r' \<in> set (orders s')" for r'
    using that by (auto simp: shape)
  have fresh: "o_id r \<noteq> o_id new" if "r \<in> set (orders s)" "new \<in> set extra" for r new
    using lt[OF that(1)] extra[OF that(2)] by simp
  have dex: "distinct (map o_id extra)"
    using len by (cases extra) simp_all
  have "inv s'"
    unfolding inv_def
  proof (intro conjI ballI impI)
    have "set (map o_id (orders s)) \<inter> set (map o_id extra) = {}"
      using fresh by auto
    then show "distinct (map o_id (orders s'))"
      using d dex by (simp add: ids)
  next
    fix r' assume "r' \<in> set (orders s')"
    from mem[OF this] obtain r0 where r0: "r' = f r0" "r0 \<in> set (orders s) \<or> r0 \<in> set extra"
      by blast
    from r0(2) have "o_id r0 < next_uuid s'"
    proof
      assume "r0 \<in> set (orders s)"
      from lt[OF this] le show ?thesis by simp
    next
      assume "r0 \<in> set extra"
      from extra[OF this] show ?thesis by simp
    qed
    then show "o_id r' < next_uuid s'" using r0(1) f by simp
  next
    fix r' assume r': "r' \<in> set (orders s')" "status r' = PAID"
    from mem[OF r'(1)] obtain r0 where r0: "r' = f r0" "r0 \<in> set (orders s) \<or> r0 \<in> set extra"
      by blast
    from r'(2) r0(1) f have p: "status r0 = PAID" by simp
    from r0(2) have "paid_at r0 \<noteq> None"
    proof
      assume "r0 \<in> set (orders s)"
      from pd[OF this p] show ?thesis .
    next
      assume "r0 \<in> set extra"
      from extra[OF this] p show ?thesis by simp
    qed
    then show "paid_at r' \<noteq> None" using r0(1) f by simp
  qed
  moreover have "order_step s s'"
    unfolding order_step_def
  proof (intro conjI ballI impI)
    fix r' r assume a: "r' \<in> set (orders s')" "r \<in> set (orders s)" "o_id r = o_id r'"
    from mem[OF a(1)] obtain r0 where r0: "r' = f r0" "r0 \<in> set (orders s) \<or> r0 \<in> set extra"
      by blast
    from a(3) r0(1) f have same: "o_id r0 = o_id r" by simp
    with fresh[OF a(2)] r0(2) have "r0 \<in> set (orders s)" by metis
    from distinct_ids_eq[OF d this a(2) same] have "r0 = r" .
    with r0(1) f show "(paid_at r' = paid_at r \<and> (status r' = PAID \<longrightarrow> status r = PAID))
           \<or> (status r \<noteq> PAID \<and> status r' = PAID \<and> paid_at r' \<noteq> None)" by simp
  next
    fix r' assume a: "r' \<in> set (orders s')" "\<forall>r \<in> set (orders s). o_id r \<noteq> o_id r'"
    from mem[OF a(1)] obtain r0 where r0: "r' = f r0" "r0 \<in> set (orders s) \<or> r0 \<in> set extra"
      by blast
    from r0(1) f have "o_id r0 = o_id r'" by simp
    with a(2) r0(2) have "r0 \<in> set extra" by metis
    from extra[OF this] r0(1) f show "paid_at r' = None" "status r' \<noteq> PAID" by auto
  next
    fix r assume "r \<in> set (orders s)"
    then have "f r \<in> set (orders s')" by (simp add: shape)
    with f show "\<exists>r' \<in> set (orders s'). o_id r' = o_id r" by blast
  qed
  ultimately show ?thesis by simp
qed

lemma step_pay:
  assumes "inv s"
    and order: "order \<in> set (orders s)" "status order \<noteq> PAID"
    and shape: "orders s' = map (\<lambda>r. if o_id r = o_id order then set_status w PAID (Some t) r else r)
                              (orders s)"
    and le: "next_uuid s \<le> next_uuid s'"
  shows "inv s' \<and> order_step s s'"
proof -
  let ?f = "\<lambda>r. if o_id r = o_id order then set_status w PAID (Some t) r else r"
  from assms(1) have d: "distinct (map o_id (orders s))"
    and lt: "\<And>r. r \<in> set (orders s) \<Longrightarrow> o_id r < next_uuid s"
    and pd: "\<And>r. r \<in> set (orders s) \<Longrightarrow> status r = PAID \<Longrightarrow> paid_at r \<noteq> None"
    by (auto simp: inv_def)
  have fid: "\<And>r. o_id (?f r) = o_id r" by simp
  have ids: "map o_id (orders s') = map o_id (orders s)"
    by (simp add: shape o_def)
  have "inv s'"
    unfolding inv_def
  proof (intro conjI ballI impI)
    show "distinct (map o_id (orders s'))" using d by (simp add: ids)
  next
    fix r' assume "r' \<in> set (orders s')"
    then show "o_id r' < next_uuid s'" using lt le by (fastforce simp: shape)
  next
    fix r' assume "r' \<in> set (orders s')" "status r' = PAID"
    then show "paid_at r' \<noteq> None" using pd by (auto simp: shape split: if_splits)
  qed
  moreover have "order_step s s'"
    unfolding order_step_def
  proof (intro conjI ballI impI)
    fix r' r assume a: "r' \<in> set (orders s')" "r \<in> set (orders s)" "o_id r = o_id r'"
    then obtain r0 where r0: "r0 \<in> set (orders s)" "r' = ?f r0" by (auto simp: shape)
    with a(3) have "o_id r0 = o_id r" by (simp split: if_splits)
    with distinct_ids_eq[OF d r0(1) a(2)] have eq: "r0 = r" by simp
    show "(paid_at r' = paid_at r \<and> (status r' = PAID \<longrightarrow> status r = PAID))
           \<or> (status r \<noteq> PAID \<and> status r' = PAID \<and> paid_at r' \<noteq> None)"
    proof (cases "o_id r = o_id order")
      case True
      with distinct_ids_eq[OF d a(2) order(1)] have "r = order" by simp
      with r0 eq order(2) show ?thesis by simp
    next
      case False
      with r0 eq show ?thesis by simp
    qed
  next
    fix r' assume a: "r' \<in> set (orders s')" "\<forall>r \<in> set (orders s). o_id r \<noteq> o_id r'"
    then obtain r0 where r0: "r0 \<in> set (orders s)" "r' = ?f r0" by (auto simp: shape)
    then have "o_id r0 = o_id r'" by (simp split: if_splits)
    with a(2) r0(1) show "paid_at r' = None" "status r' \<noteq> PAID" by auto
  next
    fix r assume "r \<in> set (orders s)"
    then have "?f r \<in> set (orders s')" by (simp add: shape)
    with fid show "\<exists>r' \<in> set (orders s'). o_id r' = o_id r" by blast
  qed
  ultimately show ?thesis by simp
qed

lemma more_frames [frame]:
  "next_uuid (snd (StripeService_create_payment_intent w oid amt cur s)) = next_uuid s"
  "orders (snd (StripeService_create_payment_intent w oid amt cur s)) = orders s"
  "next_uuid (snd (StripeService_cancel_payment_intent w pid s)) = next_uuid s"
  "orders (snd (StripeService_cancel_payment_intent w pid s)) = orders s"
  "next_uuid (snd (OrderRepository_update_payment_intent w oid pid secret s)) = next_uuid s"
  "next_uuid (snd (OrderRepository_create w uid pt amt cur descr metadata s)) = Suc (next_uuid s)"
  "orders (snd (OrderRepository_create w uid pt amt cur descr metadata s)) =
     orders s @ [fst (OrderRepository_create w uid pt amt cur descr metadata s)]"
  by (simp_all add: StripeService_create_payment_intent_def StripeService_cancel_payment_intent_def
      OrderRepository_update_payment_intent_def OrderRepository_create_def Let_def
      split: sum.splits option.splits)

lemma order_create_row:
  "o_id (fst (OrderRepository_create w uid pt amt cur descr metadata s)) = next_uuid s"
  "paid_at (fst (OrderRepository_create w uid pt amt cur descr metadata s)) = None"
  "status (fst (OrderRepository_create w uid pt amt cur descr metadata s)) = CREATED"
  by (simp_all add: OrderRepository_create_def Let_def)

lemma update_payment_intent_orders:
  "orders (snd (OrderRepository_update_payment_intent w oid pid secret s)) = orders s
   \<or> orders (snd (OrderRepository_update_payment_intent w oid pid secret s)) =
       map (\<lambda>r. if o_id r = oid then set_intent w pid secret r else r) (orders s)"
  by (simp add: OrderRepository_update_payment_intent_def Let_def set_intent_def)

lemma handle_payment_succeeded_next_uuid:
  "next_uuid s \<le> next_uuid (snd (handle_payment_succeeded w ev eid s))"
  unfolding handle_payment_succeeded_def publish_order_paid_def
  by (simp add: Let_def split_beta frame split: sum.splits option.splits)

lemma handle_payment_failed_next_uuid:
  "next_uuid s \<le> next_uuid (snd (handle_payment_failed w ev eid s))"
  unfolding handle_payment_failed_def publish_order_failed_def
  by (simp add: Let_def split_beta frame split: sum.splits option.splits)

lemma handle_payment_canceled_next_uuid:
  "next_uuid s \<le> next_uuid (snd (handle_payment_canceled w ev eid s))"
  unfolding handle_payment_canceled_def
  by (simp add: Let_def split_beta frame split: sum.splits option.splits)

lemma dispatch_next_uuid:
  "next_uuid s \<le> next_uuid (snd (dispatch w ev eid s))"
  unfolding dispatch_def
  by (simp add: handle_payment_succeeded_next_uuid handle_payment_failed_next_uuid
      handle_payment_canceled_next_uuid)

lemma entry_db_next_uuid:
  "next_uuid s \<le> next_uuid (entry_db w event payload s found)"
  by (cases found; simp add: entry_db_def frame)

text \<open>What a call of \<open>process_webhook\<close> does to the order table.\<close>

lemma dispatch_orders:
  "orders (snd (dispatch w ev eid s)) = orders s
   \<or> (\<exists>order. order \<in> set (orders s) \<and>
        (orders (snd (dispatch w ev eid s)) =
           map (\<lambda>r. if o_id r = o_id order then set_status w FAILED None r else r) (orders s)
         \<or> orders (snd (dispatch w ev eid s)) =
           map (\<lambda>r. if o_id r = o_id order then set_status w CANCELLED None r else r) (orders s)
         \<or> status order \<noteq> PAID \<and> orders (snd (dispatch w ev eid s)) =
           map (\<lambda>r. if o_id r = o_id order then set_status w PAID (Some (now w)) r else r)
             (orders s)))"
proof (cases "OrderRepository_get_by_payment_intent_id s (pi_id ev)")
  case (Inl e)
  then show ?thesis
    by (simp add: dispatch_def handle_payment_succeeded_orders handle_payment_failed_orders
        handle_payment_canceled_orders)
next
  case (Inr found)
  show ?thesis
  proof (cases found)
    case None
    with Inr show ?thesis
      by (simp add: dispatch_def handle_payment_succeeded_orders handle_payment_failed_orders
          handle_payment_canceled_orders)
  next
    case (Some order)
    with Inr have "filter (\<lambda>r. stripe_payment_intent_id r = Some (pi_id ev)) (orders s) = [order]"
      by (simp add: OrderRepository_get_by_payment_intent_id_def scalar_one_or_none_Some)
    then have "order \<in> set (filter (\<lambda>r. stripe_payment_intent_id r = Some (pi_id ev)) (orders s))"
      by simp
    then have mem: "order \<in> set (orders s)" by simp
    have eq: "orders (snd (dispatch w ev eid s)) =
        (if se_type ev = ''payment_intent.succeeded''
         then (if status order = PAID then orders s
               else map (\<lambda>r. if o_id r = o_id order then set_status w PAID (Some (now w)) r else r)
                      (orders s))
         else if se_type ev = ''payment_intent.payment_failed''
         then map (\<lambda>r. if o_id r = o_id order then set_status w FAILED None r else r) (orders s)
         else if se_type ev = ''payment_intent.canceled''
         then map (\<lambda>r. if o_id r = o_id order then set_status w CANCELLED None r else r) (orders s)
         else orders s)"
      using Inr Some
      by (simp add: dispatch_def handle_payment_succeeded_orders handle_payment_failed_orders
          handle_payment_canceled_orders)
    show ?thesis
    proof (cases "se_type ev = ''payment_intent.succeeded''")
      case True
      show ?thesis
      proof (cases "status order = PAID")
        case True
        with eq \<open>se_type ev = ''payment_intent.succeeded''\<close> show ?thesis by simp
      next
        case False
        with eq True have "orders (snd (dispatch w ev eid s)) =
            map (\<lambda>r. if o_id r = o_id order then set_status w PAID (Some (now w)) r else r)
              (orders s)" by simp
        with mem False show ?thesis by blast
      qed
    next
      case ns: False
      show ?thesis
      proof (cases "se_type ev = ''payment_intent.payment_failed''")
        case True
        with eq ns have "orders (snd (dispatch w ev eid s)) =
            map (\<lambda>r. if o_id r = o_id order then set_status w FAILED None r else r) (orders s)"
          by simp
        with mem show ?thesis by blast
      next
        case nf: False
        show ?thesis
        proof (cases "se_type ev = ''payment_intent.canceled''")
          case True
          with eq ns nf have "orders (snd (dispatch w ev eid s)) =
              map (\<lambda>r. if o_id r = o_id order then set_status w CANCELLED None r else r) (orders s)"
            by simp
          with mem show ?thesis by blast
        next
          case False
          with eq ns nf show ?thesis by simp
        qed
      qed
    qed
  qed
qed

lemma process_webhook_orders:
  "\<exists>s2. orders s2 = orders s \<and> next_uuid s \<le> next_uuid (snd (process_webhook w event payload s))
      \<and> (orders (snd (process_webhook w event payload s)) = orders s
          \<or> (\<exists>eid. orders (snd (process_webhook w event payload s))
                     = orders (snd (dispatch w event eid s2))))"
proof (cases "WebhookEventRepository_get_by_stripe_event_id s (se_id event)")
  case (Inl e)
  then show ?thesis by (auto simp: process_webhook_def)
next
  case (Inr found)
  show ?thesis
  proof (cases "\<exists>ex. found = Some ex \<and> processed ex")
    case True
    then show ?thesis using Inr by (auto simp: process_webhook_def)
  next
    case False
    let ?eid = "entry_id s found"
    let ?s2 = "entry_db w event payload s found"
    from False have np: "\<And>ex. found = Some ex \<Longrightarrow> \<not> processed ex" by blast
    note pw = process_webhook_run[OF Inr np refl, of w payload]
    have "orders (snd (process_webhook w event payload s)) = orders (snd (dispatch w event ?eid ?s2))"
      using pw by (simp add: frame)
    moreover have "next_uuid s \<le> next_uuid (snd (process_webhook w event payload s))"
      using pw dispatch_next_uuid[of ?s2 w event ?eid] entry_db_next_uuid[of s w event payload found]
      by (simp add: frame)
    ultimately show ?thesis using entry_db_frame(1)[of w event payload s found] by blast
  qed
qed

lemma set_status_keep:
  "st \<noteq> PAID \<Longrightarrow>
   o_id (if o_id r = oid then set_status w st None r else r) = o_id r
   \<and> paid_at (if o_id r = oid then set_status w st None r else r) = paid_at r
   \<and> (status (if o_id r = oid then set_status w st None r else r) = PAID \<longrightarrow> status r = PAID)"
  by simp

lemma process_webhook_step:
  assumes "inv s"
  shows "inv (snd (process_webhook w event payload s))
       \<and> order_step s (snd (process_webhook w event payload s))"
proof -
  let ?s' = "snd (process_webhook w event payload s)"
  from process_webhook_orders[of s w event payload] obtain s2 where
    s2: "orders s2 = orders s" and le: "next_uuid s \<le> next_uuid ?s'"
    and c: "orders ?s' = orders s \<or> (\<exists>eid. orders ?s' = orders (snd (dispatch w event eid s2)))"
    by blast
  have same: "inv ?s' \<and> order_step s ?s'" if "orders ?s' = orders s"
    by (rule step_keep[OF assms, where f = "\<lambda>r. r" and extra = "[]"]) (use that le in simp_all)
  from c show ?thesis
  proof
    assume "orders ?s' = orders s"
    then show ?thesis by (rule same)
  next
    assume "\<exists>eid. orders ?s' = orders (snd (dispatch w event eid s2))"
    then obtain eid where e: "orders ?s' = orders (snd (dispatch w event eid s2))" by blast
    from dispatch_orders[of w event eid s2]
    consider (same) "orders ?s' = orders s"
      | (failed) order where "order \<in> set (orders s)"
          "orders ?s' = map (\<lambda>r. if o_id r = o_id order then set_status w FAILED None r else r) (orders s)"
      | (canceled) order where "order \<in> set (orders s)"
          "orders ?s' = map (\<lambda>r. if o_id r = o_id order then set_status w CANCELLED None r else r) (orders s)"
      | (paid) order where "order \<in> set (orders s)" "status order \<noteq> PAID"
          "orders ?s' = map (\<lambda>r. if o_id r = o_id order then set_status w PAID (Some (now w)) r else r) (orders s)"
      unfolding e s2 by blast
    then show ?thesis
    proof cases
      case same
      then show ?thesis by (rule \<open>orders ?s' = orders s \<Longrightarrow> inv ?s' \<and> order_step s ?s'\<close>)
    next
      case failed
      show ?thesis
        by (rule step_keep[OF assms, where extra = "[]"
              and f = "\<lambda>r. if o_id r = o_id order then set_status w FAILED None r else r"])
           (use failed le in simp_all)
    next
      case canceled
      show ?thesis
        by (rule step_keep[OF assms, where extra = "[]"
              and f = "\<lambda>r. if o_id r = o_id order then set_status w CANCELLED None r else r"])
           (use canceled le in simp_all)
    next
      case paid
      show ?thesis
        by (rule step_pay[OF assms paid(1,2) paid(3) le])
    qed
  qed
qed

lemma cancel_order_orders:
  "orders (snd (cancel_order w oid uid s)) =
     (case OrderRepository_get_by_id s oid of
        Inr (Some order) \<Rightarrow>
          if user_id order = uid \<and> (status order = CREATED \<or> status order = PENDING_PAYMENT)
          then map (\<lambda>r. if o_id r = o_id order then set_status w CANCELLED None r else r) (orders s)
          else orders s
      | _ \<Rightarrow> orders s)"
  unfolding cancel_order_def
  by (simp add: Let_def split_beta frame update_status_orders split: sum.splits option.splits)

lemma cancel_order_step:
  assumes "inv s"
  shows "inv (snd (cancel_order w oid uid s)) \<and> order_step s (snd (cancel_order w oid uid s))"
proof -
  let ?s' = "snd (cancel_order w oid uid s)"
  have le: "next_uuid s \<le> next_uuid ?s'"
    unfolding cancel_order_def
    by (simp add: Let_def split_beta frame split: sum.splits option.splits)
  have "orders ?s' = orders s
      \<or> (\<exists>k. orders ?s' = map (\<lambda>r. if o_id r = k then set_status w CANCELLED None r else r) (orders s))"
    unfolding cancel_order_orders
    by (auto split: sum.splits option.splits)
  then show ?thesis
  proof
    assume "orders ?s' = orders s"
    then show ?thesis
      by (intro step_keep[OF assms, where f = "\<lambda>r. r" and extra = "[]"]) (use le in simp_all)
  next
    assume "\<exists>k. orders ?s' = map (\<lambda>r. if o_id r = k then set_status w CANCELLED None r else r) (orders s)"
    then obtain k where
      "orders ?s' = map (\<lambda>r. if o_id r = k then set_status w CANCELLED None r else r) (orders s)"
      by blast
    then show ?thesis
      by (intro step_keep[OF assms, where extra = "[]"
            and f = "\<lambda>r. if o_id r = k then set_status w CANCELLED None r else r"])
         (use le in simp_all)
  qed
qed

lemma create_order_orders:
  "\<exists>new. o_id new = next_uuid s \<and> paid_at new = None \<and> status new = CREATED
      \<and> (orders (snd (create_order pricing w uid order_data s)) = orders s @ [new]
          \<or> (\<exists>pid secret. orders (snd (create_order pricing w uid order_data s)) =
                map (\<lambda>r. if o_id r = next_uuid s then set_intent w pid secret r else r)
                  (orders s @ [new])))"
proof -
  let ?s' = "snd (create_order pricing w uid order_data s)"
  define c where "c = OrderRepository_create w uid (oc_package_type order_data)
              (price (get_package_info pricing (oc_package_type order_data)))
              (pkg_currency (get_package_info pricing (oc_package_type order_data)))
              (Some (pkg_name (get_package_info pricing (oc_package_type order_data))))
              (case oc_metadata order_data of
                        None \<Rightarrow> None
                      | Some d \<Rightarrow> if d = [] then None else Some (json_dumps d)) s"
  define new where "new = fst c"
  define g where "g = StripeService_create_payment_intent w (o_id new) (amount new) (currency new)
               (snd (PaymentAuditRepository_log_action w (o_id new) ''order_created'' CREATED
                       None None
                       (Some (''Package: '' @ PackageType_str (oc_package_type order_data)))
                       (snd c)))"
  define s3 where "s3 = snd g"
  have new: "o_id new = next_uuid s" "paid_at new = None" "status new = CREATED"
    by (simp_all add: new_def c_def order_create_row)
  have o3: "orders s3 = orders s @ [new]"
    by (simp add: s3_def g_def new_def c_def frame)
  have "orders ?s' = orders s3
      \<or> (\<exists>pid secret. orders ?s' =
            orders (snd (OrderRepository_update_payment_intent w (o_id new) pid secret s3)))"
  proof (cases "fst g")
    case (Inl e)
    then have "orders ?s' = orders s3"
      unfolding create_order_def publish_order_created_def s3_def g_def new_def c_def
      by (simp add: Let_def split_beta)
    then show ?thesis by simp
  next
    case (Inr intent)
    then have "orders ?s' =
        orders (snd (OrderRepository_update_payment_intent w (o_id new) (fst intent) (snd intent) s3))"
      unfolding create_order_def publish_order_created_def s3_def g_def new_def c_def
      by (simp add: Let_def split_beta frame split: sum.splits option.splits)
    then show ?thesis by blast
  qed
  then have "orders ?s' = orders s @ [new]
      \<or> (\<exists>pid secret. orders ?s' =
            map (\<lambda>r. if o_id r = next_uuid s then set_intent w pid secret r else r)
              (orders s @ [new]))"
  proof (elim disjE exE)
    assume "orders ?s' = orders s3"
    then show ?thesis by (simp only: o3) simp
  next
    fix pid secret
    assume e: "orders ?s' =
            orders (snd (OrderRepository_update_payment_intent w (o_id new) pid secret s3))"
    from update_payment_intent_orders[of w "o_id new" pid secret s3]
    have "orders ?s' = orders s @ [new]
        \<or> orders ?s' = map (\<lambda>r. if o_id r = next_uuid s then set_intent w pid secret r else r)
                          (orders s @ [new])"
      unfolding e o3 new(1) .
    then show ?thesis by blast
  qed
  with new show ?thesis by blast
qed

lemma create_order_step:
  assumes "inv s"
  shows "inv (snd (create_order pricing w uid order_data s))
       \<and> order_step s (snd (create_order pricing w uid order_data s))"
proof -
  let ?s' = "snd (create_order pricing w uid order_data s)"
  have lt: "next_uuid s < next_uuid ?s'"
    unfolding create_order_def publish_order_created_def
    by (simp add: Let_def split_beta frame split: sum.splits option.splits prod.splits)
  from create_order_orders[of s pricing w uid order_data] obtain new where
    new: "o_id new = next_uuid s" "paid_at new = None" "status new = CREATED"
    and c: "orders ?s' = orders s @ [new]
          \<or> (\<exists>pid secret. orders ?s' =
                map (\<lambda>r. if o_id r = next_uuid s then set_intent w pid secret r else r)
                  (orders s @ [new]))"
    by blast
  from c show ?thesis
  proof
    assume "orders ?s' = orders s @ [new]"
    then show ?thesis
      by (intro step_keep[OF assms, where f = "\<lambda>r. r" and extra = "[new]"])
         (use lt new in simp_all)
  next
    assume "\<exists>pid secret. orders ?s' =
            map (\<lambda>r. if o_id r = next_uuid s then set_intent w pid secret r else r)
              (orders s @ [new])"
    then obtain pid secret where "orders ?s' =
            map (\<lambda>r. if o_id r = next_uuid s then set_intent w pid secret r else r)
              (orders s @ [new])" by blast
    then show ?thesis
      by (intro step_keep[OF assms, where extra = "[new]"
            and f = "\<lambda>r. if o_id r = next_uuid s then set_intent w pid secret r else r"])
         (use lt new in \<open>simp_all add: set_intent_def\<close>)
  qed
qed

lemma apply_call_step:
  "inv s \<Longrightarrow> inv (apply_call pricing c s) \<and> order_step s (apply_call pricing c s)"
proof (cases c)
  case (GetOrder oid uid)
  assume "inv s"
  from step_keep[OF this, where f = "\<lambda>r. r" and extra = "[]" and s' = s] GetOrder
  show ?thesis by simp
next
  case (ListOrders uid page page_size st)
  assume "inv s"
  from step_keep[OF this, where f = "\<lambda>r. r" and extra = "[]" and s' = s] ListOrders
  show ?thesis by simp
qed (simp_all add: create_order_step cancel_order_step process_webhook_step)

lemma run_length [simp]: "length (run pricing s cs) = Suc (length cs)"
  by (induction cs arbitrary: s) simp_all

lemma run_0 [simp]: "run pricing s cs ! 0 = s"
  by (cases cs) simp_all

lemma run_Suc:
  "k < length cs \<Longrightarrow>
   run pricing s cs ! Suc k = apply_call pricing (cs ! k) (run pricing s cs ! k)"
proof (induction cs arbitrary: s k)
  case Nil
  then show ?case by simp
next
  case (Cons c cs)
  show ?case
  proof (cases k)
    case 0
    then show ?thesis by simp
  next
    case (Suc k')
    with Cons.prems have "k' < length cs" by simp
    from Cons.IH[OF this, of "apply_call pricing c s"] Suc show ?thesis by simp
  qed
qed

lemma run_inv:
  "inv s \<Longrightarrow> k \<le> length cs \<Longrightarrow> inv (run pricing s cs ! k)"
proof (induction k)
  case 0
  then show ?case by simp
next
  case (Suc k)
  then have "inv (run pricing s cs ! k)" and "k < length cs" by simp_all
  with apply_call_step[of "run pricing s cs ! k" pricing "cs ! k"] run_Suc[of k cs pricing s]
  show ?case by simp
qed

lemma run_step:
  "inv s \<Longrightarrow> k < length cs \<Longrightarrow>
   order_step (run pricing s cs ! k) (run pricing s cs ! Suc k)"
  using apply_call_step[of "run pricing s cs ! k" pricing "cs ! k"] run_Suc[of k cs pricing s]
    run_inv[of s k cs pricing] by simp

text \<open>One step: an order has its \<open>paid_at\<close> after the call iff it had it before or is paid now.\<close>

lemma order_step_paid_at:
  assumes "inv s" and "inv s'" and "order_step s s'" and "r' \<in> set (orders s')"
  shows "paid_at r' \<noteq> None \<longleftrightarrow>
           (\<exists>r \<in> set (orders s). o_id r = o_id r' \<and> paid_at r \<noteq> None) \<or> status r' = PAID"
proof
  assume p: "paid_at r' \<noteq> None"
  show "(\<exists>r \<in> set (orders s). o_id r = o_id r' \<and> paid_at r \<noteq> None) \<or> status r' = PAID"
  proof (cases "\<exists>r \<in> set (orders s). o_id r = o_id r'")
    case True
    then obtain r where r: "r \<in> set (orders s)" "o_id r = o_id r'" by blast
    with assms(3,4) have "(paid_at r' = paid_at r \<and> (status r' = PAID \<longrightarrow> status r = PAID))
           \<or> (status r \<noteq> PAID \<and> status r' = PAID \<and> paid_at r' \<noteq> None)"
      unfolding order_step_def by blast
    with p r show ?thesis by auto
  next
    case False
    with assms(3,4) have "paid_at r' = None" unfolding order_step_def by blast
    with p show ?thesis by simp
  qed
next
  assume "(\<exists>r \<in> set (orders s). o_id r = o_id r' \<and> paid_at r \<noteq> None) \<or> status r' = PAID"
  then show "paid_at r' \<noteq> None"
  proof
    assume "\<exists>r \<in> set (orders s). o_id r = o_id r' \<and> paid_at r \<noteq> None"
    then obtain r where r: "r \<in> set (orders s)" "o_id r = o_id r'" "paid_at r \<noteq> None" by blast
    with assms(3,4) have "(paid_at r' = paid_at r \<and> (status r' = PAID \<longrightarrow> status r = PAID))
           \<or> (status r \<noteq> PAID \<and> status r' = PAID \<and> paid_at r' \<noteq> None)"
      unfolding order_step_def by blast
    with r(3) show ?thesis by auto
  next
    assume "status r' = PAID"
    with assms(2,4) show ?thesis unfolding inv_def by blast
  qed
qed

lemma run_paid_at:
  assumes "inv s" and "k \<le> length cs" and "r \<in> set (orders (run pricing s cs ! k))"
  shows "paid_at r \<noteq> None \<longleftrightarrow>
           (\<exists>r0 \<in> set (orders s). o_id r0 = o_id r \<and> paid_at r0 \<noteq> None)
           \<or> (\<exists>j \<le> k. \<exists>r' \<in> set (orders (run pricing s cs ! j)). o_id r' = o_id r \<and> status r' = PAID)"
  using assms(2,3)
proof (induction k arbitrary: r)
  case 0
  from assms(1) have d: "distinct (map o_id (orders s))"
    and pd: "\<And>x. x \<in> set (orders s) \<Longrightarrow> status x = PAID \<Longrightarrow> paid_at x \<noteq> None"
    by (auto simp: inv_def)
  from 0 have r: "r \<in> set (orders s)" by simp
  have same: "x = r" if "x \<in> set (orders s)" "o_id x = o_id r" for x
    using distinct_ids_eq[OF d that(1) r that(2)] .
  show ?case
    using r pd same by auto
next
  case (Suc k)
  let ?sk = "run pricing s cs ! k" and ?sk' = "run pricing s cs ! Suc k"
  from Suc.prems have k: "k < length cs" "k \<le> length cs" by simp_all
  note st = run_step[OF assms(1) k(1), of pricing]
  note ik = run_inv[OF assms(1) k(2), of pricing] and ik' = run_inv[OF assms(1) Suc.prems(1), of pricing]
  note one = order_step_paid_at[OF ik ik' st Suc.prems(2)]
  let ?A = "\<exists>r0 \<in> set (orders s). o_id r0 = o_id r \<and> paid_at r0 \<noteq> None"
  let ?B = "\<lambda>n. \<exists>j \<le> n. \<exists>r' \<in> set (orders (run pricing s cs ! j)). o_id r' = o_id r \<and> status r' = PAID"
  have prev: "(\<exists>x \<in> set (orders ?sk). o_id x = o_id r \<and> paid_at x \<noteq> None) \<longleftrightarrow> ?A \<or> ?B k"
    (is "?L \<longleftrightarrow> _")
  proof
    assume ?L
    then obtain x where x: "x \<in> set (orders ?sk)" "o_id x = o_id r" "paid_at x \<noteq> None" by blast
    from Suc.IH[OF k(2) x(1)] x(2,3) show "?A \<or> ?B k" by simp
  next
    assume ab: "?A \<or> ?B k"
    show ?L
    proof (cases "\<exists>x \<in> set (orders ?sk). o_id x = o_id r")
      case True
      then obtain x where x: "x \<in> set (orders ?sk)" "o_id x = o_id r" by blast
      from Suc.IH[OF k(2) x(1)] x(2) ab have "paid_at x \<noteq> None" by simp
      with x show ?thesis by blast
    next
      case False
      have pers: "\<exists>y \<in> set (orders ?sk). o_id y = o_id x"
        if "j \<le> k" "x \<in> set (orders (run pricing s cs ! j))" for j x
        using that
      proof (induction "k - j" arbitrary: j x)
        case 0
        then show ?case by auto
      next
        case (Suc n)
        then have j: "j < length cs" "Suc j \<le> k" using k by simp_all
        from run_step[OF assms(1) j(1), of pricing] Suc.prems(2)
        obtain y where y: "y \<in> set (orders (run pricing s cs ! Suc j))" "o_id y = o_id x"
          unfolding order_step_def by blast
        from Suc.hyps(2) j have "n = k - Suc j" by simp
        from Suc.hyps(1)[OF this j(2) y(1)] y(2) show ?case by simp
      qed
      from ab show ?thesis
      proof
        assume ?A
        then obtain r0 where "r0 \<in> set (orders s)" "o_id r0 = o_id r" by blast
        with pers[of 0 r0] False show ?thesis by simp
      next
        assume "?B k"
        then obtain j r' where "j \<le> k" "r' \<in> set (orders (run pricing s cs ! j))"
          "o_id r' = o_id r" by blast
        with pers[of j r'] False show ?thesis by simp
      qed
    qed
  qed
  have "?B (Suc k) \<longleftrightarrow> ?B k \<or> (\<exists>r' \<in> set (orders ?sk'). o_id r' = o_id r \<and> status r' = PAID)"
    by (metis le_Suc_eq)
  moreover have "(\<exists>r' \<in> set (orders ?sk'). o_id r' = o_id r \<and> status r' = PAID) \<longleftrightarrow> status r = PAID"
  proof -
    from ik' have d: "distinct (map o_id (orders ?sk'))" by (simp add: inv_def)
    show ?thesis
      using distinct_ids_eq[OF d _ Suc.prems(2)] Suc.prems(2) by blast
  qed
  ultimately show ?case using one prev by blast
qed

lemma db_failed_orders: "orders db_failed = [order_failed]"
  by (simp add: db_failed_def db_paid_eq process_webhook_def dispatch_def
      handle_payment_failed_def failure_reason_def evt_failed_def world_up_def order_failed_def
      eval_defs)

lemma run_calls_example:
  "run pricing_default db_empty calls_example = [db_empty, db_pending, db_paid, db_failed]"
  by (simp add: calls_example_def db_pending_def db_paid_def db_failed_def)



section \<open>Claims\<close>

text \<open>
  C1 (amended). When dispatch raises a failure for an event that is not short-circuited,
  \<open>process_webhook\<close> re-raises that failure, and the event's row then has
  \<open>processed = False\<close>, the error message \<open>Error processing webhook: ...\<close> and its
  \<open>processed_at\<close> set: \<open>mark_processed\<close> stores \<open>error_message is None\<close> in
  \<open>processed\<close>, so a failed event stays open for a retry.
\<close>

theorem process_webhook_failure_recorded:
  assumes "WebhookEventRepository_get_by_stripe_event_id s (se_id event) = Inr found"
    and "\<forall>ex. found = Some ex \<longrightarrow> \<not> processed ex"
    and "fst (dispatch w event (entry_id s found) (entry_db w event payload s found)) = Inl e"
  shows "\<exists>s' row. process_webhook w event payload s = (Inl e, s')
           \<and> filter (\<lambda>r. we_stripe_event_id r = se_id event) (webhook_events s') = [row]
           \<and> \<not> processed row
           \<and> error_message row = Some (''Error processing webhook: '' @ exn_str e)
           \<and> processed_at row = Some (now w)"
proof -
  let ?d = "dispatch w event (entry_id s found) (entry_db w event payload s found)"
  let ?msg = "Some (''Error processing webhook: '' @ exn_str e)"
  have pw: "process_webhook w event payload s =
      (Inl e, WebhookEventRepository_mark_processed w (entry_id s found) None ?msg (snd ?d))"
    using process_webhook_run[OF assms(1) _ refl, of w payload] assms(2,3)
    by (simp add: error_of_def)
  have "row_keys (webhook_events (snd ?d)) = row_keys (webhook_events (entry_db w event payload s found))"
    by (rule dispatch_keys)
  from row_keys_single[OF this entry_db_row[OF assms(1), of w payload]]
  obtain ex3 where
    "filter (\<lambda>e. we_stripe_event_id e = se_id event) (webhook_events (snd ?d)) = [ex3]"
    "we_id ex3 = entry_id s found" by blast
  from mark_processed_row[OF this, of w None ?msg] pw
  show ?thesis by auto
qed

theorem process_webhook_failure_recorded_witness:
  "\<exists>s' row. process_webhook world_broker_down evt_succeeded ''{}'' db_pending
               = (Inl (BrokerError ''connection refused''), s')
     \<and> filter (\<lambda>r. we_stripe_event_id r = ''evt_1'') (webhook_events s') = [row]
     \<and> \<not> processed row
     \<and> error_message row = Some ''Error processing webhook: connection refused''
     \<and> processed_at row = Some 20"
proof -
  have 1: "WebhookEventRepository_get_by_stripe_event_id db_pending (se_id evt_succeeded) = Inr None"
    by (simp add: db_pending_eq WebhookEventRepository_get_by_stripe_event_id_def)
  have 2: "fst (dispatch world_broker_down evt_succeeded (entry_id db_pending None)
                 (entry_db world_broker_down evt_succeeded ''{}'' db_pending None))
           = Inl (BrokerError ''connection refused'')"
    by (simp add: db_pending_eq entry_id_def entry_db_def dispatch_def
        handle_payment_succeeded_def evt_succeeded_def world_broker_down_def eval_defs)
  from process_webhook_failure_recorded[OF 1 _ 2]
  show ?thesis by (simp add: evt_succeeded_def world_broker_down_def)
qed

theorem process_webhook_failure_counterexample:
  "fst (process_webhook world_broker_down evt_succeeded ''{}'' db_pending)
     = Inl (BrokerError ''connection refused'')
   \<and> map processed (webhook_events (snd (process_webhook world_broker_down evt_succeeded ''{}'' db_pending)))
     = [False]
   \<and> map error_message (webhook_events (snd (process_webhook world_broker_down evt_succeeded ''{}'' db_pending)))
     = [Some ''Error processing webhook: connection refused'']"
  by (simp add: db_pending_eq process_webhook_def dispatch_def handle_payment_succeeded_def
      evt_succeeded_def world_broker_down_def eval_defs)

text \<open>
  C2 (amended). \<open>cancel_order\<close> rejects an order that is paid, failed or cancelled and
  leaves the store as it is, and a payment-succeeded event leaves a paid order paid. The
  webhook handlers check nothing else: for an event that is not short-circuited and
  resolves to the order, a payment-failed event sets it to failed, a payment-canceled event
  to cancelled and a payment-succeeded event to paid, whatever terminal status it had.
\<close>

theorem terminal_order_status:
  assumes "status order = PAID \<or> status order = FAILED \<or> status order = CANCELLED"
  shows "(OrderRepository_get_by_id s oid = Inr (Some order)
            \<longrightarrow> (\<exists>m. cancel_order w oid uid s = (Inl (ValueError m), s)))
       \<and> (WebhookEventRepository_get_by_stripe_event_id s (se_id event) = Inr found
            \<and> (\<forall>ex. found = Some ex \<longrightarrow> \<not> processed ex)
            \<and> OrderRepository_get_by_payment_intent_id s (pi_id event) = Inr (Some order)
            \<longrightarrow> (\<exists>order'. OrderRepository_get_by_payment_intent_id
                              (snd (process_webhook w event payload s)) (pi_id event)
                            = Inr (Some order')
                   \<and> status order' =
                       (if se_type event = ''payment_intent.succeeded'' then PAID
                        else if se_type event = ''payment_intent.payment_failed'' then FAILED
                        else if se_type event = ''payment_intent.canceled'' then CANCELLED
                        else status order)))"
proof (intro conjI impI)
  assume "OrderRepository_get_by_id s oid = Inr (Some order)"
  with assms show "\<exists>m. cancel_order w oid uid s = (Inl (ValueError m), s)"
    by (auto simp: cancel_order_def)
next
  assume a: "WebhookEventRepository_get_by_stripe_event_id s (se_id event) = Inr found
            \<and> (\<forall>ex. found = Some ex \<longrightarrow> \<not> processed ex)
            \<and> OrderRepository_get_by_payment_intent_id s (pi_id event) = Inr (Some order)"
  let ?s2 = "entry_db w event payload s found"
  let ?d = "dispatch w event (entry_id s found) ?s2"
  let ?P = "\<lambda>r. stripe_payment_intent_id r = Some (pi_id event)"
  from a have rows: "filter ?P (orders s) = [order]"
    by (simp add: OrderRepository_get_by_payment_intent_id_def scalar_one_or_none_Some)
  from a have res: "OrderRepository_get_by_payment_intent_id ?s2 (pi_id event) = Inr (Some order)"
    using get_by_payment_intent_id_cong[OF entry_db_frame(1)] by simp
  have "orders (snd (process_webhook w event payload s)) = orders (snd ?d)"
    using process_webhook_run[OF _ _ refl, of s event found w payload] a
    by (simp add: frame)
  moreover have "\<exists>order'. filter ?P (orders (snd ?d)) = [order'] \<and> status order' =
                       (if se_type event = ''payment_intent.succeeded'' then PAID
                        else if se_type event = ''payment_intent.payment_failed'' then FAILED
                        else if se_type event = ''payment_intent.canceled'' then CANCELLED
                        else status order)"
    using res rows
    by (simp add: dispatch_def handle_payment_succeeded_orders handle_payment_failed_orders
        handle_payment_canceled_orders entry_db_frame set_status_intent_row)
  ultimately show "\<exists>order'. OrderRepository_get_by_payment_intent_id
                              (snd (process_webhook w event payload s)) (pi_id event)
                            = Inr (Some order')
                   \<and> status order' =
                       (if se_type event = ''payment_intent.succeeded'' then PAID
                        else if se_type event = ''payment_intent.payment_failed'' then FAILED
                        else if se_type event = ''payment_intent.canceled'' then CANCELLED
                        else status order)"
    by (auto simp: OrderRepository_get_by_payment_intent_id_def)
qed

theorem terminal_order_status_counterexample:
  "map status (orders db_paid) = [PAID]
   \<and> OrderRepository_get_by_payment_intent_id db_paid (pi_id evt_failed)
       = Inr (Some (hd (orders db_paid)))
   \<and> map status (orders (snd (process_webhook world_up evt_failed ''{}'' db_paid))) = [FAILED]"
  by (simp add: db_paid_eq process_webhook_def dispatch_def handle_payment_failed_def
      failure_reason_def evt_failed_def world_up_def eval_defs)

theorem terminal_order_status_witness:
  "(\<exists>m. cancel_order world_up 1 7 db_paid = (Inl (ValueError m), db_paid))
   \<and> (\<exists>order'. OrderRepository_get_by_payment_intent_id
                   (snd (process_webhook world_up evt_failed ''{}'' db_paid)) ''pi_1''
                 = Inr (Some order')
        \<and> status order' = FAILED)"
proof -
  let ?order = "\<lparr> o_id = 1, user_id = 7, package_type = BASIC, amount = 999, currency = ''USD'',
            status = PAID, stripe_payment_intent_id = Some ''pi_1'',
            stripe_client_secret = Some ''secret_1'', description = Some ''Basic Package'',
            extra_metadata = None, created_at = 10, updated_at = 10, paid_at = Some 10 \<rparr>"
  have 0: "status ?order = PAID \<or> status ?order = FAILED \<or> status ?order = CANCELLED" by simp
  have 1: "OrderRepository_get_by_id db_paid 1 = Inr (Some ?order)"
    by (simp add: db_paid_eq OrderRepository_get_by_id_def)
  have 2: "WebhookEventRepository_get_by_stripe_event_id db_paid (se_id evt_failed) = Inr None"
    by (simp add: db_paid_eq WebhookEventRepository_get_by_stripe_event_id_def evt_failed_def)
  have 3: "OrderRepository_get_by_payment_intent_id db_paid (pi_id evt_failed) = Inr (Some ?order)"
    by (simp add: db_paid_eq OrderRepository_get_by_payment_intent_id_def evt_failed_def)
  have 4: "pi_id evt_failed = ''pi_1''" "se_type evt_failed = ''payment_intent.payment_failed''"
    by (simp_all add: evt_failed_def)
  from terminal_order_status[OF 0, of db_paid 1 world_up 7 evt_failed None "''{}''"] 1 2 3
  show ?thesis by (simp add: 4)
qed




text \<open>
  C4. A payment-succeeded event with a fresh provider event id, resolving to an order that
  is already paid, is processed successfully, publishes nothing and leaves every order
  (so also its \<open>paid_at\<close>) and the audit log as they were.
\<close>

theorem succeeded_on_paid_order:
  assumes "WebhookEventRepository_get_by_stripe_event_id s (se_id event) = Inr None"
    and "se_type event = ''payment_intent.succeeded''"
    and "OrderRepository_get_by_payment_intent_id s (pi_id event) = Inr (Some order)"
    and "status order = PAID"
  shows "fst (process_webhook w event payload s) = Inr ()
       \<and> published (snd (process_webhook w event payload s)) = published s
       \<and> orders (snd (process_webhook w event payload s)) = orders s
       \<and> payment_audit (snd (process_webhook w event payload s)) = payment_audit s"
proof -
  let ?s2 = "entry_db w event payload s None"
  let ?d = "dispatch w event (entry_id s None) ?s2"
  have look: "OrderRepository_get_by_payment_intent_id ?s2 (pi_id event) = Inr (Some order)"
    using assms(3) get_by_payment_intent_id_cong[OF entry_db_frame(1)] by simp
  have d: "?d = (Inr (), WebhookEventRepository_mark_processed w (entry_id s None)
                    (Some (o_id order)) None ?s2)"
    using assms(2,4) look by (simp add: dispatch_def handle_payment_succeeded_def Let_def)
  have "process_webhook w event payload s =
      (fst ?d, WebhookEventRepository_mark_processed w (entry_id s None) None
                     (error_of (fst ?d)) (snd ?d))"
    by (rule process_webhook_run[OF assms(1) _ refl]) simp
  then show ?thesis
    unfolding d by (simp add: frame entry_db_frame)
qed

theorem succeeded_on_paid_order_witness:
  "fst (process_webhook world_up evt_succeeded_again ''{}'' db_paid) = Inr ()
   \<and> published (snd (process_webhook world_up evt_succeeded_again ''{}'' db_paid)) = published db_paid
   \<and> orders (snd (process_webhook world_up evt_succeeded_again ''{}'' db_paid)) = orders db_paid
   \<and> payment_audit (snd (process_webhook world_up evt_succeeded_again ''{}'' db_paid))
       = payment_audit db_paid"
proof -
  let ?order = "\<lparr> o_id = 1, user_id = 7, package_type = BASIC, amount = 999, currency = ''USD'',
            status = PAID, stripe_payment_intent_id = Some ''pi_1'',
            stripe_client_secret = Some ''secret_1'', description = Some ''Basic Package'',
            extra_metadata = None, created_at = 10, updated_at = 10, paid_at = Some 10 \<rparr>"
  have 1: "WebhookEventRepository_get_by_stripe_event_id db_paid (se_id evt_succeeded_again) = Inr None"
    by (simp add: db_paid_eq WebhookEventRepository_get_by_stripe_event_id_def
        evt_succeeded_again_def evt_succeeded_def)
  have 2: "se_type evt_succeeded_again = ''payment_intent.succeeded''"
    by (simp add: evt_succeeded_again_def evt_succeeded_def)
  have 3: "OrderRepository_get_by_payment_intent_id db_paid (pi_id evt_succeeded_again) = Inr (Some ?order)"
    by (simp add: db_paid_eq OrderRepository_get_by_payment_intent_id_def
        evt_succeeded_again_def evt_succeeded_def)
  from succeeded_on_paid_order[OF 1 2 3, of world_up "''{}''"] show ?thesis by simp
qed

text \<open>
  C5. In every store that a sequence of orchestrator calls reaches from an empty order
  table, an order has a \<open>paid_at\<close> if and only if it is paid in that store or was paid in
  an earlier one. From one store to the next, \<open>paid_at\<close> changes only when the order moves
  into paid, every move into paid sets it, and a new order has none.
\<close>

theorem paid_at_iff_was_paid:
  assumes "orders s0 = []" and "k \<le> length calls"
    and "r \<in> set (orders (run pricing s0 calls ! k))"
  shows "(paid_at r \<noteq> None \<longleftrightarrow>
            (\<exists>j \<le> k. \<exists>r' \<in> set (orders (run pricing s0 calls ! j)).
                o_id r' = o_id r \<and> status r' = PAID))
       \<and> (\<forall>j. k = Suc j \<longrightarrow>
             (\<forall>r0 \<in> set (orders (run pricing s0 calls ! j)). o_id r0 = o_id r \<longrightarrow>
                 (paid_at r \<noteq> paid_at r0 \<longrightarrow> status r0 \<noteq> PAID \<and> status r = PAID)
               \<and> (status r0 \<noteq> PAID \<and> status r = PAID \<longrightarrow> paid_at r \<noteq> None))
           \<and> ((\<forall>r0 \<in> set (orders (run pricing s0 calls ! j)). o_id r0 \<noteq> o_id r)
                 \<longrightarrow> paid_at r = None))"
proof -
  from assms(1) have i0: "inv s0" by (simp add: inv_def)
  from run_paid_at[OF i0 assms(2,3)] assms(1)
  have iff: "paid_at r \<noteq> None \<longleftrightarrow>
            (\<exists>j \<le> k. \<exists>r' \<in> set (orders (run pricing s0 calls ! j)).
                o_id r' = o_id r \<and> status r' = PAID)" by simp
  have step: "(\<forall>r0 \<in> set (orders (run pricing s0 calls ! j)). o_id r0 = o_id r \<longrightarrow>
                 (paid_at r \<noteq> paid_at r0 \<longrightarrow> status r0 \<noteq> PAID \<and> status r = PAID)
               \<and> (status r0 \<noteq> PAID \<and> status r = PAID \<longrightarrow> paid_at r \<noteq> None))
           \<and> ((\<forall>r0 \<in> set (orders (run pricing s0 calls ! j)). o_id r0 \<noteq> o_id r)
                 \<longrightarrow> paid_at r = None)" if "k = Suc j" for j
  proof -
    from that assms(2) have j: "j < length calls" by simp
    from run_step[OF i0 j, of pricing] assms(3) that
    have a: "\<forall>r0 \<in> set (orders (run pricing s0 calls ! j)). o_id r0 = o_id r \<longrightarrow>
           (paid_at r = paid_at r0 \<and> (status r = PAID \<longrightarrow> status r0 = PAID))
           \<or> (status r0 \<noteq> PAID \<and> status r = PAID \<and> paid_at r \<noteq> None)"
      and b: "(\<forall>r0 \<in> set (orders (run pricing s0 calls ! j)). o_id r0 \<noteq> o_id r)
                 \<longrightarrow> paid_at r = None"
      unfolding order_step_def by blast+
    from a b show ?thesis by blast
  qed
  from iff step show ?thesis by blast
qed

theorem paid_at_iff_was_paid_witness:
  "order_failed \<in> set (orders (run pricing_default db_empty calls_example ! 3))
   \<and> status order_failed = FAILED \<and> paid_at order_failed = Some 10
   \<and> (\<exists>j \<le> 3. \<exists>r' \<in> set (orders (run pricing_default db_empty calls_example ! j)).
         o_id r' = o_id order_failed \<and> status r' = PAID)"
proof -
  have 1: "orders db_empty = []" by (simp add: db_empty_def)
  have 2: "3 \<le> length calls_example" by (simp add: calls_example_def)
  have 3: "order_failed \<in> set (orders (run pricing_default db_empty calls_example ! 3))"
    by (simp add: run_calls_example db_failed_orders)
  have 4: "status order_failed = FAILED" "paid_at order_failed = Some 10"
    by (simp_all add: order_failed_def)
  from paid_at_iff_was_paid[OF 1 2 3] 4(2)
  have "\<exists>j \<le> 3. \<exists>r' \<in> set (orders (run pricing_default db_empty calls_example ! j)).
         o_id r' = o_id order_failed \<and> status r' = PAID" by simp
  with 3 4 show ?thesis by simp
qed

text \<open>
  C6. In every call of \<open>process_webhook\<close> the effects it adds contain the order-status
  update, the audit insert and the publish at most once each and in this order. When the
  broker fails while a payment-succeeded or payment-failed event is applied to its order,
  the call raises the broker's error, and the store then holds the new status and the audit
  entry while nothing was published.
\<close>

theorem webhook_side_effect_order:
  "(\<exists>new. effects (snd (process_webhook w event payload s)) = effects s @ new
          \<and> sorted_wrt (<) (map phase (transition_effects new)))
   \<and> (WebhookEventRepository_get_by_stripe_event_id s (se_id event) = Inr found
        \<and> (\<forall>ex. found = Some ex \<longrightarrow> \<not> processed ex)
        \<and> OrderRepository_get_by_payment_intent_id s (pi_id event) = Inr (Some order)
        \<and> OrderRepository_get_by_id s (o_id order) = Inr (Some order)
        \<and> broker_error w = Some m
        \<and> (se_type event = ''payment_intent.succeeded'' \<and> status order \<noteq> PAID
            \<or> se_type event = ''payment_intent.payment_failed''
              \<and> failure_reason (pi_last_payment_error event) = Inr reason)
      \<longrightarrow> (\<exists>s' order' a new.
             process_webhook w event payload s = (Inl (BrokerError m), s')
           \<and> OrderRepository_get_by_id s' (o_id order) = Inr (Some order')
           \<and> status order' = (if se_type event = ''payment_intent.succeeded'' then PAID else FAILED)
           \<and> payment_audit s' = payment_audit s @ [a]
           \<and> pa_order_id a = o_id order \<and> new_status a = status order'
           \<and> published s' = published s
           \<and> effects s' = effects s @ new
           \<and> transition_effects new
                = [OrderUpdate (o_id order),
                   AuditInsert (o_id order)
                     (if se_type event = ''payment_intent.succeeded'' then ''payment_succeeded''
                      else ''payment_failed'')]))"
proof (intro conjI impI)
  show "\<exists>new. effects (snd (process_webhook w event payload s)) = effects s @ new
          \<and> sorted_wrt (<) (map phase (transition_effects new))"
    by (rule process_webhook_effects)
next
  assume a: "WebhookEventRepository_get_by_stripe_event_id s (se_id event) = Inr found
        \<and> (\<forall>ex. found = Some ex \<longrightarrow> \<not> processed ex)
        \<and> OrderRepository_get_by_payment_intent_id s (pi_id event) = Inr (Some order)
        \<and> OrderRepository_get_by_id s (o_id order) = Inr (Some order)
        \<and> broker_error w = Some m
        \<and> (se_type event = ''payment_intent.succeeded'' \<and> status order \<noteq> PAID
            \<or> se_type event = ''payment_intent.payment_failed''
              \<and> failure_reason (pi_last_payment_error event) = Inr reason)"
  then consider
      (succeeded) "se_type event = ''payment_intent.succeeded''" "status order \<noteq> PAID"
    | (failed) "se_type event = ''payment_intent.payment_failed''"
        "failure_reason (pi_last_payment_error event) = Inr reason"
    by blast
  then show "\<exists>s' order' a new.
             process_webhook w event payload s = (Inl (BrokerError m), s')
           \<and> OrderRepository_get_by_id s' (o_id order) = Inr (Some order')
           \<and> status order' = (if se_type event = ''payment_intent.succeeded'' then PAID else FAILED)
           \<and> payment_audit s' = payment_audit s @ [a]
           \<and> pa_order_id a = o_id order \<and> new_status a = status order'
           \<and> published s' = published s
           \<and> effects s' = effects s @ new
           \<and> transition_effects new
                = [OrderUpdate (o_id order),
                   AuditInsert (o_id order)
                     (if se_type event = ''payment_intent.succeeded'' then ''payment_succeeded''
                      else ''payment_failed'')]"
  proof cases
    case succeeded
    from publish_failure_succeeded[of s event found order w m payload] a succeeded
    obtain s' order' au new where
      "process_webhook w event payload s = (Inl (BrokerError m), s')"
      "OrderRepository_get_by_id s' (o_id order) = Inr (Some order')"
      "status order' = PAID" "payment_audit s' = payment_audit s @ [au]"
      "pa_order_id au = o_id order" "new_status au = PAID" "published s' = published s"
      "effects s' = effects s @ new"
      "transition_effects new = [OrderUpdate (o_id order), AuditInsert (o_id order) ''payment_succeeded'']"
      by auto
    with succeeded(1) show ?thesis by auto
  next
    case failed
    from publish_failure_failed[of s event found order reason w m payload] a failed
    obtain s' order' au new where
      "process_webhook w event payload s = (Inl (BrokerError m), s')"
      "OrderRepository_get_by_id s' (o_id order) = Inr (Some order')"
      "status order' = FAILED" "payment_audit s' = payment_audit s @ [au]"
      "pa_order_id au = o_id order" "new_status au = FAILED" "published s' = published s"
      "effects s' = effects s @ new"
      "transition_effects new = [OrderUpdate (o_id order), AuditInsert (o_id order) ''payment_failed'']"
      by auto
    with failed(1) show ?thesis by auto
  qed
qed

theorem webhook_side_effect_order_witness:
  "(\<exists>new. effects (snd (process_webhook world_broker_down evt_succeeded ''{}'' db_pending))
            = effects db_pending @ new
          \<and> sorted_wrt (<) (map phase (transition_effects new)))
   \<and> (\<exists>s' order' a new.
         process_webhook world_broker_down evt_succeeded ''{}'' db_pending
           = (Inl (BrokerError ''connection refused''), s')
       \<and> OrderRepository_get_by_id s' 1 = Inr (Some order')
       \<and> status order' = PAID
       \<and> payment_audit s' = payment_audit db_pending @ [a]
       \<and> pa_order_id a = 1 \<and> new_status a = status order'
       \<and> published s' = published db_pending
       \<and> effects s' = effects db_pending @ new
       \<and> transition_effects new = [OrderUpdate 1, AuditInsert 1 ''payment_succeeded''])"
proof -
  let ?order = "\<lparr> o_id = 1, user_id = 7, package_type = BASIC, amount = 999, currency = ''USD'',
            status = PENDING_PAYMENT, stripe_payment_intent_id = Some ''pi_1'',
            stripe_client_secret = Some ''secret_1'', description = Some ''Basic Package'',
            extra_metadata = None, created_at = 10, updated_at = 10, paid_at = None \<rparr>"
  have 1: "WebhookEventRepository_get_by_stripe_event_id db_pending (se_id evt_succeeded) = Inr None"
    by (simp add: db_pending_eq WebhookEventRepository_get_by_stripe_event_id_def)
  have 2: "OrderRepository_get_by_payment_intent_id db_pending (pi_id evt_succeeded) = Inr (Some ?order)"
    by (simp add: db_pending_eq OrderRepository_get_by_payment_intent_id_def evt_succeeded_def)
  have 3: "OrderRepository_get_by_id db_pending (o_id ?order) = Inr (Some ?order)"
    by (simp add: db_pending_eq OrderRepository_get_by_id_def)
  have 4: "broker_error world_broker_down = Some ''connection refused''"
    "se_type evt_succeeded = ''payment_intent.succeeded''" "status ?order \<noteq> PAID"
    by (simp_all add: world_broker_down_def evt_succeeded_def)
  from webhook_side_effect_order[of world_broker_down evt_succeeded "''{}''" db_pending None
         ?order "''connection refused''"] 1 2 3 4
  show ?thesis by simp
qed

text \<open>
  C7. \<open>cancel_order\<close> by the owner of an order whose status is paid, failed or cancelled
  raises \<open>ValueError('Cannot cancel order with status ...')\<close> and leaves the whole store
  as it was: no order changes and no gateway call is recorded.
\<close>

theorem cancel_order_terminal_rejected:
  assumes "OrderRepository_get_by_id s oid = Inr (Some order)"
    and "user_id order = uid"
    and "status order = PAID \<or> status order = FAILED \<or> status order = CANCELLED"
  shows "cancel_order w oid uid s =
           (Inl (ValueError (''Cannot cancel order with status '' @ OrderStatus_str (status order))),
            s)"
  using assms by (auto simp: cancel_order_def)

theorem cancel_order_terminal_rejected_witness:
  "cancel_order world_up 1 7 db_paid
     = (Inl (ValueError ''Cannot cancel order with status OrderStatus.PAID''), db_paid)"
proof -
  let ?order = "\<lparr> o_id = 1, user_id = 7, package_type = BASIC, amount = 999, currency = ''USD'',
            status = PAID, stripe_payment_intent_id = Some ''pi_1'',
            stripe_client_secret = Some ''secret_1'', description = Some ''Basic Package'',
            extra_metadata = None, created_at = 10, updated_at = 10, paid_at = Some 10 \<rparr>"
  have 1: "OrderRepository_get_by_id db_paid 1 = Inr (Some ?order)"
    by (simp add: db_paid_eq OrderRepository_get_by_id_def)
  from cancel_order_terminal_rejected[OF 1, of 7 world_up] show ?thesis by simp
qed

text \<open>
  C8. When the gateway fails to create the payment intent, \<open>create_order\<close> raises the
  gateway's error; the new order is in the store with status \<open>created\<close> and no intent
  id, its \<open>order_created\<close> audit entry is there, and nothing was published.
\<close>

theorem create_order_gateway_failure:
  assumes "stripe_create w = Inl m"
  shows "\<exists>s' order audit.
           create_order pricing w uid order_data s = (Inl (Exception (''Stripe error: '' @ m)), s')
         \<and> orders s' = orders s @ [order]
         \<and> o_id order = next_uuid s \<and> user_id order = uid \<and> status order = CREATED
         \<and> stripe_payment_intent_id order = None
         \<and> payment_audit s' = payment_audit s @ [audit]
         \<and> pa_order_id audit = o_id order \<and> action audit = ''order_created''
         \<and> new_status audit = CREATED
         \<and> published s' = published s"
  using assms
  by (simp add: create_order_def Let_def OrderRepository_create_def
      PaymentAuditRepository_log_action_def StripeService_create_payment_intent_def)

theorem create_order_gateway_failure_witness:
  "\<exists>s' order audit.
      create_order pricing_default world_gateway_down 7
          \<lparr> oc_package_type = STANDARD, oc_metadata = None \<rparr> db_empty
        = (Inl (Exception ''Stripe error: api unreachable''), s')
    \<and> orders s' = [order] \<and> o_id order = 1 \<and> user_id order = 7 \<and> status order = CREATED
    \<and> stripe_payment_intent_id order = None
    \<and> payment_audit s' = [audit]
    \<and> pa_order_id audit = o_id order \<and> action audit = ''order_created''
    \<and> new_status audit = CREATED
    \<and> published s' = []"
proof -
  have 1: "stripe_create world_gateway_down = Inl ''api unreachable''"
    by (simp add: world_gateway_down_def)
  from create_order_gateway_failure[OF 1, of pricing_default 7
         "\<lparr> oc_package_type = STANDARD, oc_metadata = None \<rparr>" db_empty]
  show ?thesis by (simp add: db_empty_def)
qed




text \<open>
  C10 (amended). For an existing order requested by a user who does not own it, the
  get-order endpoint answers 404, the status code it also gives for an order that does not
  exist, and the cancel-order endpoint answers 400, both with the detail \<open>Access denied\<close>.
  The detail of the 404 for an order that does not exist is \<open>Order not found\<close>, so the two
  answers of the get-order endpoint differ.
\<close>

theorem ownership_mismatch_http:
  assumes "OrderRepository_get_by_id s oid = Inr (Some order)"
    and "user_id order \<noteq> uid"
  shows "route_get_order s oid uid = HTTPException 404 ''Access denied''
       \<and> route_cancel_order w oid uid s = (HTTPException 400 ''Access denied'', s)
       \<and> (OrderRepository_get_by_id s oid' = Inr None
            \<longrightarrow> route_get_order s oid' uid = HTTPException 404 ''Order not found''
              \<and> route_get_order s oid uid \<noteq> route_get_order s oid' uid)"
  using assms
  by (simp add: route_get_order_def route_cancel_order_def get_order_def cancel_order_def)

theorem ownership_mismatch_http_witness:
  "route_get_order db_pending 1 8 = HTTPException 404 ''Access denied''
   \<and> route_cancel_order world_up 1 8 db_pending = (HTTPException 400 ''Access denied'', db_pending)
   \<and> route_get_order db_pending 2 8 = HTTPException 404 ''Order not found''"
proof -
  let ?order = "\<lparr> o_id = 1, user_id = 7, package_type = BASIC, amount = 999, currency = ''USD'',
            status = PENDING_PAYMENT, stripe_payment_intent_id = Some ''pi_1'',
            stripe_client_secret = Some ''secret_1'', description = Some ''Basic Package'',
            extra_metadata = None, created_at = 10, updated_at = 10, paid_at = None \<rparr>"
  have 1: "OrderRepository_get_by_id db_pending 1 = Inr (Some ?order)"
    by (simp add: db_pending_eq OrderRepository_get_by_id_def)
  have 2: "OrderRepository_get_by_id db_pending 2 = Inr None"
    by (simp add: db_pending_eq OrderRepository_get_by_id_def)
  from ownership_mismatch_http[OF 1, of 8 world_up 2] 2 show ?thesis by simp
qed

theorem ownership_mismatch_http_counterexample:
  "route_get_order db_pending 1 8 = HTTPException 404 ''Access denied''
   \<and> route_get_order db_pending 2 8 = HTTPException 404 ''Order not found''
   \<and> route_get_order db_pending 1 8 \<noteq> route_get_order db_pending 2 8"
  by (simp add: db_pending_eq route_get_order_def get_order_def OrderRepository_get_by_id_def)

end
